theory Spec2Isabelle
  imports Main
begin

section \<open>JavaScript values, built-ins and library functions the agent relies on\<close>

text \<open>
  The agent (\<^verbatim>\<open>MyMCP\<close>, the session-scoped variant with \<^verbatim>\<open>MyMCPState\<close>) exchanges JSON
  with its callers and with the Supabase backend. A JSON value is modelled as a datatype;
  an object is an association list in property order, read with \<^const>\<open>map_of\<close>. The
  ECMAScript Number type is IEEE-754 double precision; it is kept abstract as the type
  parameter \<open>'n\<close>, and the built-ins that work on it are fields of a record that every
  function receives. The same record carries the acceptance test of the WHATWG URL
  parser, which \<^verbatim>\<open>z.string().url()\<close> calls, and \<^verbatim>\<open>createClient\<close> of supabase-js, which
  returns a client or raises.
\<close>

datatype 'n json =
    JNull
  | JBool bool
  | JNum 'n
  | JStr string
  | JArr "'n json list"
  | JObj "(string \<times> 'n json) list"

text \<open>A thrown \<^verbatim>\<open>Error\<close>, identified by its \<^verbatim>\<open>message\<close>.\<close>

datatype js_error = Error (message: string)

text \<open>The handle of a Supabase client.\<close>

record supabase_client =
  client_url :: string
  client_key :: string

record 'n builtins =
  number_add :: "'n \<Rightarrow> 'n \<Rightarrow> 'n"
  number_to_string :: "'n \<Rightarrow> string"
  number_is_finite :: "'n \<Rightarrow> bool"
  number_of_literal :: "string \<Rightarrow> 'n"
  url_parses :: "string \<Rightarrow> bool"
  createClient :: "string \<Rightarrow> string \<Rightarrow> js_error + supabase_client"

subsection \<open>\<^verbatim>\<open>JSON.stringify(value, null, space)\<close>\<close>

definition hex_digit :: "nat \<Rightarrow> char" where
  "hex_digit d = (if d < 10 then char_of (48 + d) else char_of (87 + d))"

text \<open>
  \<^verbatim>\<open>QuoteJSONString\<close>: the two-character escapes for backspace, tab, line feed, form feed,
  carriage return, the double quote and the backslash; \<^verbatim>\<open>\u00xx\<close> with lower-case digits
  for the other code units below \<open>0x20\<close>; every other character as it is.
\<close>

definition quote_char :: "char \<Rightarrow> string" where
  "quote_char c =
     (if c = CHR 0x08 then [CHR 0x5C, CHR ''b'']
      else if c = CHR 0x09 then [CHR 0x5C, CHR ''t'']
      else if c = CHR 0x0A then [CHR 0x5C, CHR ''n'']
      else if c = CHR 0x0C then [CHR 0x5C, CHR ''f'']
      else if c = CHR 0x0D then [CHR 0x5C, CHR ''r'']
      else if c = CHR 0x22 then [CHR 0x5C, CHR 0x22]
      else if c = CHR 0x5C then [CHR 0x5C, CHR 0x5C]
      else if (of_char c :: nat) < 32
        then [CHR 0x5C, CHR ''u'', CHR ''0'', CHR ''0'',
              hex_digit (of_char c div 16), hex_digit (of_char c mod 16)]
      else [c])"

definition QuoteJSONString :: "string \<Rightarrow> string" where
  "QuoteJSONString s = CHR 0x22 # concat (map quote_char s) @ [CHR 0x22]"

fun join :: "string \<Rightarrow> string list \<Rightarrow> string" where
  "join sep [] = []"
| "join sep [x] = x"
| "join sep (x # y # ys) = x @ sep @ join sep (y # ys)"

text \<open>
  \<^verbatim>\<open>SerializeJSONProperty\<close>, \<^verbatim>\<open>SerializeJSONArray\<close> and \<^verbatim>\<open>SerializeJSONObject\<close>. \<open>gap\<close> is the
  indentation unit and \<open>ind\<close> the current indentation; with an empty gap no line breaks
  are produced and a member is \<^verbatim>\<open>"key":value\<close>.
\<close>

fun serialize :: "'n builtins \<Rightarrow> string \<Rightarrow> string \<Rightarrow> 'n json \<Rightarrow> string"
  and serialize_elements :: "'n builtins \<Rightarrow> string \<Rightarrow> string \<Rightarrow> 'n json list \<Rightarrow> string list"
  and serialize_members ::
    "'n builtins \<Rightarrow> string \<Rightarrow> string \<Rightarrow> (string \<times> 'n json) list \<Rightarrow> string list"
where
  "serialize rt gap ind JNull = ''null''"
| "serialize rt gap ind (JBool b) = (if b then ''true'' else ''false'')"
| "serialize rt gap ind (JNum n) =
     (if number_is_finite rt n then number_to_string rt n else ''null'')"
| "serialize rt gap ind (JStr s) = QuoteJSONString s"
| "serialize rt gap ind (JArr xs) =
     (if xs = [] then ''[]''
      else if gap = [] then ''['' @ join '','' (serialize_elements rt gap ind xs) @ '']''
      else ''['' @ CHR 0x0A # (ind @ gap)
             @ join ('','' @ CHR 0x0A # (ind @ gap)) (serialize_elements rt gap (ind @ gap) xs)
             @ CHR 0x0A # ind @ '']'')"
| "serialize rt gap ind (JObj ps) =
     (if ps = [] then ''{}''
      else if gap = [] then ''{'' @ join '','' (serialize_members rt gap ind ps) @ ''}''
      else ''{'' @ CHR 0x0A # (ind @ gap)
             @ join ('','' @ CHR 0x0A # (ind @ gap)) (serialize_members rt gap (ind @ gap) ps)
             @ CHR 0x0A # ind @ ''}'')"
| "serialize_elements rt gap ind [] = []"
| "serialize_elements rt gap ind (x # xs) =
     serialize rt gap ind x # serialize_elements rt gap ind xs"
| "serialize_members rt gap ind [] = []"
| "serialize_members rt gap ind ((k, v) # ps) =
     (QuoteJSONString k @ (if gap = [] then '':'' else '': '') @ serialize rt gap ind v)
       # serialize_members rt gap ind ps"

definition JSON_stringify :: "'n builtins \<Rightarrow> 'n json \<Rightarrow> nat \<Rightarrow> string" where
  "JSON_stringify rt v space = serialize rt (replicate (min space 10) CHR '' '') [] v"

subsection \<open>\<^verbatim>\<open>JSON.parse(text)\<close>\<close>

text \<open>
  A recursive-descent parser for the JSON grammar; \<open>None\<close> is the \<^verbatim>\<open>SyntaxError\<close> of
  \<^verbatim>\<open>JSON.parse\<close>. Every function returns the value it read and the rest of the text.
  Characters are the 8-bit \<^typ>\<open>char\<close>: an escape \<^verbatim>\<open>\uXXXX\<close> of a code unit above
  \<open>0xFF\<close> has no character here and fails.
\<close>

definition is_ws :: "char \<Rightarrow> bool" where
  "is_ws c = (c = CHR 0x20 \<or> c = CHR 0x09 \<or> c = CHR 0x0A \<or> c = CHR 0x0D)"

fun skip_ws :: "string \<Rightarrow> string" where
  "skip_ws [] = []"
| "skip_ws (c # cs) = (if is_ws c then skip_ws cs else c # cs)"

definition hex_value :: "char \<Rightarrow> nat option" where
  "hex_value c =
     (let n = (of_char c :: nat)
      in if 48 \<le> n \<and> n \<le> 57 then Some (n - 48)
         else if 97 \<le> n \<and> n \<le> 102 then Some (n - 87)
         else if 65 \<le> n \<and> n \<le> 70 then Some (n - 55)
         else None)"

definition code_unit :: "char \<Rightarrow> char \<Rightarrow> char \<Rightarrow> char \<Rightarrow> nat option" where
  "code_unit h1 h2 h3 h4 =
     (case (hex_value h1, hex_value h2, hex_value h3, hex_value h4) of
        (Some a, Some b, Some c, Some d) \<Rightarrow> Some (4096 * a + 256 * b + 16 * c + d)
      | _ \<Rightarrow> None)"

definition unescape :: "char \<Rightarrow> char option" where
  "unescape e =
     (if e = CHR 0x22 then Some (CHR 0x22)
      else if e = CHR 0x5C then Some (CHR 0x5C)
      else if e = CHR ''/'' then Some (CHR ''/'')
      else if e = CHR ''b'' then Some (CHR 0x08)
      else if e = CHR ''f'' then Some (CHR 0x0C)
      else if e = CHR ''n'' then Some (CHR 0x0A)
      else if e = CHR ''r'' then Some (CHR 0x0D)
      else if e = CHR ''t'' then Some (CHR 0x09)
      else None)"

text \<open>The characters of a string literal, after its opening quote, up to the closing one.\<close>

definition prepend :: "char \<Rightarrow> (string \<times> string) option \<Rightarrow> (string \<times> string) option" where
  "prepend c r = (case r of None \<Rightarrow> None | Some (s, rest) \<Rightarrow> Some (c # s, rest))"

fun parse_chars :: "string \<Rightarrow> (string \<times> string) option" where
  "parse_chars [] = None"
| "parse_chars (c # cs) =
     (if c = CHR 0x22 then Some ([], cs)
      else if c = CHR 0x5C then
        (case cs of
           [] \<Rightarrow> None
         | e # r \<Rightarrow>
             if e = CHR ''u'' then
               (case r of
                  h1 # h2 # h3 # h4 # r' \<Rightarrow>
                    (case code_unit h1 h2 h3 h4 of
                       None \<Rightarrow> None
                     | Some n \<Rightarrow> if n < 256 then prepend (char_of n) (parse_chars r') else None)
                | _ \<Rightarrow> None)
             else
               (case unescape e of
                  None \<Rightarrow> None
                | Some d \<Rightarrow> prepend d (parse_chars r)))
      else if (of_char c :: nat) < 32 then None
      else prepend c (parse_chars cs))"

text \<open>
  A number literal: an optional minus sign, an integer part without a leading zero, an
  optional fraction, an optional exponent. The literal is handed to
  \<^const>\<open>number_of_literal\<close>.
\<close>

definition is_digit :: "char \<Rightarrow> bool" where
  "is_digit c = (48 \<le> (of_char c :: nat) \<and> (of_char c :: nat) \<le> 57)"

definition int_part :: "string \<Rightarrow> (string \<times> string) option" where
  "int_part cs =
     (case cs of
        [] \<Rightarrow> None
      | c # r \<Rightarrow>
          if c = CHR ''0'' then Some ([c], r)
          else if is_digit c then Some (c # takeWhile is_digit r, dropWhile is_digit r)
          else None)"

definition frac_part :: "string \<Rightarrow> (string \<times> string) option" where
  "frac_part cs =
     (case cs of
        [] \<Rightarrow> Some ([], cs)
      | c # r \<Rightarrow>
          if c = CHR ''.'' then
            (if takeWhile is_digit r = [] then None
             else Some (c # takeWhile is_digit r, dropWhile is_digit r))
          else Some ([], cs))"

definition exp_part :: "string \<Rightarrow> (string \<times> string) option" where
  "exp_part cs =
     (case cs of
        [] \<Rightarrow> Some ([], cs)
      | c # r \<Rightarrow>
          if c = CHR ''e'' \<or> c = CHR ''E'' then
            (let sign = (case r of
                           [] \<Rightarrow> []
                         | s # _ \<Rightarrow> if s = CHR ''+'' \<or> s = CHR ''-'' then [s] else []);
                 r' = drop (length sign) r
             in if takeWhile is_digit r' = [] then None
                else Some (c # sign @ takeWhile is_digit r', dropWhile is_digit r'))
          else Some ([], cs))"

definition parse_number :: "string \<Rightarrow> (string \<times> string) option" where
  "parse_number cs =
     (let sign = (case cs of [] \<Rightarrow> [] | c # _ \<Rightarrow> if c = CHR ''-'' then [c] else [])
      in case int_part (drop (length sign) cs) of
           None \<Rightarrow> None
         | Some (ip, r1) \<Rightarrow>
             (case frac_part r1 of
                None \<Rightarrow> None
              | Some (fp, r2) \<Rightarrow>
                  (case exp_part r2 of
                     None \<Rightarrow> None
                   | Some (ep, r3) \<Rightarrow> Some (sign @ ip @ fp @ ep, r3))))"

text \<open>
  \<^verbatim>\<open>CreateDataProperty\<close>: a key that the object already has keeps its place and takes the
  new value, a new key goes to the end.
\<close>

fun set_property :: "(string \<times> 'v) list \<Rightarrow> string \<Rightarrow> 'v \<Rightarrow> (string \<times> 'v) list" where
  "set_property [] k v = [(k, v)]"
| "set_property ((k', v') # ps) k v =
     (if k' = k then (k, v) # ps else (k', v') # set_property ps k v)"

definition literal :: "string \<Rightarrow> 'a \<Rightarrow> string \<Rightarrow> ('a \<times> string) option" where
  "literal w v cs = (if take (length w) cs = w then Some (v, drop (length w) cs) else None)"

text \<open>
  The mutual recursion of values, array elements and object members is bounded by a
  counter that every call decreases; \<^verbatim>\<open>JSON.parse\<close> starts it at one more than the length
  of the text. The lemmas on table listings below show that it is enough for the texts
  the agent produces.
\<close>

fun parse_value :: "'n builtins \<Rightarrow> nat \<Rightarrow> string \<Rightarrow> ('n json \<times> string) option"
  and parse_elements ::
    "'n builtins \<Rightarrow> nat \<Rightarrow> 'n json list \<Rightarrow> string \<Rightarrow> ('n json list \<times> string) option"
  and parse_members ::
    "'n builtins \<Rightarrow> nat \<Rightarrow> (string \<times> 'n json) list \<Rightarrow> string
       \<Rightarrow> ((string \<times> 'n json) list \<times> string) option"
where
  "parse_value rt 0 cs = None"
| "parse_value rt (Suc n) cs =
     (case skip_ws cs of
        [] \<Rightarrow> None
      | c # r \<Rightarrow>
          if c = CHR ''{'' then
            (case skip_ws r of
               [] \<Rightarrow> None
             | d # r' \<Rightarrow>
                 if d = CHR ''}'' then Some (JObj [], r')
                 else (case parse_members rt n [] r of
                         None \<Rightarrow> None
                       | Some (ps, r'') \<Rightarrow> Some (JObj ps, r'')))
          else if c = CHR ''['' then
            (case skip_ws r of
               [] \<Rightarrow> None
             | d # r' \<Rightarrow>
                 if d = CHR '']'' then Some (JArr [], r')
                 else (case parse_elements rt n [] r of
                         None \<Rightarrow> None
                       | Some (xs, r'') \<Rightarrow> Some (JArr xs, r'')))
          else if c = CHR 0x22 then
            (case parse_chars r of None \<Rightarrow> None | Some (s, r') \<Rightarrow> Some (JStr s, r'))
          else if c = CHR ''t'' then literal ''true'' (JBool True) (c # r)
          else if c = CHR ''f'' then literal ''false'' (JBool False) (c # r)
          else if c = CHR ''n'' then literal ''null'' JNull (c # r)
          else (case parse_number (c # r) of
                  None \<Rightarrow> None
                | Some (lit, r') \<Rightarrow> Some (JNum (number_of_literal rt lit), r')))"
| "parse_elements rt 0 acc cs = None"
| "parse_elements rt (Suc n) acc cs =
     (case parse_value rt n cs of
        None \<Rightarrow> None
      | Some (v, r) \<Rightarrow>
          (case skip_ws r of
             [] \<Rightarrow> None
           | c # r' \<Rightarrow>
               if c = CHR '','' then parse_elements rt n (acc @ [v]) r'
               else if c = CHR '']'' then Some (acc @ [v], r')
               else None))"
| "parse_members rt 0 acc cs = None"
| "parse_members rt (Suc n) acc cs =
     (case skip_ws cs of
        [] \<Rightarrow> None
      | q # r \<Rightarrow>
          if q = CHR 0x22 then
            (case parse_chars r of
               None \<Rightarrow> None
             | Some (k, r1) \<Rightarrow>
                 (case skip_ws r1 of
                    [] \<Rightarrow> None
                  | c # r2 \<Rightarrow>
                      if c = CHR '':'' then
                        (case parse_value rt n r2 of
                           None \<Rightarrow> None
                         | Some (v, r3) \<Rightarrow>
                             (case skip_ws r3 of
                                [] \<Rightarrow> None
                              | d # r4 \<Rightarrow>
                                  if d = CHR '','' then parse_members rt n (set_property acc k v) r4
                                  else if d = CHR ''}'' then Some (set_property acc k v, r4)
                                  else None))
                      else None))
          else None)"

definition JSON_parse :: "'n builtins \<Rightarrow> string \<Rightarrow> 'n json option" where
  "JSON_parse rt s =
     (case parse_value rt (Suc (length s)) s of
        None \<Rightarrow> None
      | Some (v, r) \<Rightarrow> if skip_ws r = [] then Some v else None)"

section \<open>Schema validation (zod)\<close>

text \<open>
  A schema takes the value found at some position, \<open>None\<close> standing for \<^verbatim>\<open>undefined\<close>
  (an absent property), and returns the typed value, or \<open>None\<close> when validation fails.
  \<^verbatim>\<open>z.object\<close> is in its default mode: unknown keys are dropped, so a shape only ever
  looks at its own keys.
\<close>

type_synonym ('n, 'a) zod = "'n json option \<Rightarrow> 'a option"

definition z_string :: "('n, string) zod" where
  "z_string v = (case v of Some (JStr s) \<Rightarrow> Some s | _ \<Rightarrow> None)"

definition z_string_url :: "'n builtins \<Rightarrow> ('n, string) zod" where
  "z_string_url rt v =
     (case v of Some (JStr s) \<Rightarrow> if url_parses rt s then Some s else None | _ \<Rightarrow> None)"

definition z_number :: "('n, 'n) zod" where
  "z_number v = (case v of Some (JNum n) \<Rightarrow> Some n | _ \<Rightarrow> None)"

definition z_nullable :: "('n, 'a) zod \<Rightarrow> ('n, 'a option) zod" where
  "z_nullable p v = (case v of Some JNull \<Rightarrow> Some None | _ \<Rightarrow> map_option Some (p v))"

definition z_optional :: "('n, 'a) zod \<Rightarrow> ('n, 'a option) zod" where
  "z_optional p v = (case v of None \<Rightarrow> Some None | _ \<Rightarrow> map_option Some (p v))"

fun parse_each :: "('n, 'a) zod \<Rightarrow> 'n json list \<Rightarrow> 'a list option" where
  "parse_each p [] = Some []"
| "parse_each p (x # xs) =
     (case p (Some x) of
        None \<Rightarrow> None
      | Some y \<Rightarrow> (case parse_each p xs of None \<Rightarrow> None | Some ys \<Rightarrow> Some (y # ys)))"

definition z_array :: "('n, 'a) zod \<Rightarrow> ('n, 'a list) zod" where
  "z_array p v = (case v of Some (JArr xs) \<Rightarrow> parse_each p xs | _ \<Rightarrow> None)"

text \<open>The first step of \<^verbatim>\<open>z.object\<close>: the value must be an object; its properties are then
  read by key.\<close>

definition z_object :: "'n json option \<Rightarrow> (string \<Rightarrow> 'n json option) option" where
  "z_object v = (case v of Some (JObj ps) \<Rightarrow> Some (map_of ps) | _ \<Rightarrow> None)"

section \<open>Session state and tool results\<close>

record MyMCPState =
  isConfigured :: bool
  supabaseUrl :: "string option"
  supabaseAnonKey :: "string option"
  supabaseServiceKey :: "string option"

definition initialState :: MyMCPState where
  "initialState =
     \<lparr>isConfigured = False, supabaseUrl = None, supabaseAnonKey = None,
      supabaseServiceKey = None\<rparr>"

text \<open>\<^verbatim>\<open>this.setState(s)\<close> stores \<open>s\<close> as the agent's state, replacing the previous one.\<close>

definition setState :: "MyMCPState \<Rightarrow> MyMCPState \<Rightarrow> MyMCPState" where
  "setState new old = new"

text \<open>
  A tool result is \<^verbatim>\<open>{content: [{type: 'text', text}], _meta?: {isError: true}}\<close>. The
  specification's \<open>Ok\<close> is a result without the marker, its \<open>Failure\<close> one with it.
\<close>

datatype content = Text (payload: string)

datatype tool_result = ToolResult (content: "content list") (isError: bool)

definition ok_text :: "string \<Rightarrow> tool_result" where
  "ok_text t = ToolResult [Text t] False"

definition error_text :: "string \<Rightarrow> tool_result" where
  "error_text t = ToolResult [Text t] True"

section \<open>The Supabase client factory and the backend\<close>

text \<open>What a handler does to the outside world, in order.\<close>

datatype backend_event =
    ClientCreated string string
  | RpcCalled supabase_client string string

datatype postgrest_error = PostgrestError (error_message: string)

text \<open>\<^verbatim>\<open>await supabase.rpc(fn, {query})\<close> either rejects (an exception with a message) or
  resolves to \<^verbatim>\<open>{data, error}\<close>.\<close>

datatype 'n rpc_outcome =
    Rejected string
  | Resolved "'n json" "postgrest_error option"

type_synonym 'n backend = "supabase_client \<Rightarrow> string \<Rightarrow> string \<Rightarrow> 'n rpc_outcome"

definition truthy :: "string option \<Rightarrow> bool" where
  "truthy v = (case v of None \<Rightarrow> False | Some s \<Rightarrow> s \<noteq> [])"

text \<open>
  \<^verbatim>\<open>createSupabaseClient\<close> raises its own error on an absent or empty argument and
  otherwise returns what \<^verbatim>\<open>createClient\<close> returns, or raises what it raises.
\<close>

definition createSupabaseClient ::
  "'n builtins \<Rightarrow> string option \<Rightarrow> string option \<Rightarrow> js_error + supabase_client" where
  "createSupabaseClient rt url key =
     (case (url, key) of
        (Some u, Some k) \<Rightarrow>
          if u = [] \<or> k = []
          then Inl (Error ''Supabase URL and Anon Key are required to create a client.'')
          else createClient rt u k
      | _ \<Rightarrow> Inl (Error ''Supabase URL and Anon Key are required to create a client.''))"

section \<open>The tools of the agent\<close>

subsection \<open>\<^verbatim>\<open>configure_supabase_instance\<close>\<close>

record config_input =
  input_supabaseUrl :: string
  input_supabaseAnonKey :: string
  input_supabaseServiceKey :: "string option"

definition configShape :: "'n builtins \<Rightarrow> ('n, config_input) zod" where
  "configShape rt v =
     (case z_object v of
        None \<Rightarrow> None
      | Some obj \<Rightarrow>
          (case (z_string_url rt (obj ''supabaseUrl''),
                 z_string (obj ''supabaseAnonKey''),
                 z_optional z_string (obj ''supabaseServiceKey'')) of
             (Some u, Some k, Some s) \<Rightarrow>
               Some \<lparr>input_supabaseUrl = u, input_supabaseAnonKey = k,
                     input_supabaseServiceKey = s\<rparr>
           | _ \<Rightarrow> None))"

type_synonym handler_outcome = "(js_error + tool_result) \<times> MyMCPState \<times> backend_event list"

definition configure_handler :: "config_input \<Rightarrow> MyMCPState \<Rightarrow> handler_outcome" where
  "configure_handler input st =
     (Inr (ok_text (''Session configured for Supabase instance: '' @ input_supabaseUrl input)),
      setState
        \<lparr>isConfigured = True,
         supabaseUrl = Some (input_supabaseUrl input),
         supabaseAnonKey = Some (input_supabaseAnonKey input),
         supabaseServiceKey = input_supabaseServiceKey input\<rparr> st,
      [])"

subsection \<open>\<^verbatim>\<open>add\<close>\<close>

record 'n add_input =
  input_a :: 'n
  input_b :: 'n

definition addToolShape :: "('n, 'n add_input) zod" where
  "addToolShape v =
     (case z_object v of
        None \<Rightarrow> None
      | Some obj \<Rightarrow>
          (case (z_number (obj ''a''), z_number (obj ''b'')) of
             (Some a, Some b) \<Rightarrow> Some \<lparr>input_a = a, input_b = b\<rparr>
           | _ \<Rightarrow> None))"

definition add_handler :: "'n builtins \<Rightarrow> 'n add_input \<Rightarrow> MyMCPState \<Rightarrow> handler_outcome" where
  "add_handler rt input st =
     (Inr (ok_text (number_to_string rt (number_add rt (input_a input) (input_b input)))),
      st, [])"

subsection \<open>\<^verbatim>\<open>list_tables\<close>\<close>

record table_entry =
  entry_schema :: string
  entry_name :: string
  entry_comment :: "string option option"

text \<open>
  \<^verbatim>\<open>comment: z.string().nullable().optional()\<close>: \<open>None\<close> is an absent comment,
  \<open>Some None\<close> is \<^verbatim>\<open>null\<close>. \<open>ListTablesEntrySchema\<close> is the \<^verbatim>\<open>z.object\<close> inside the
  \<^verbatim>\<open>z.array\<close> of \<^verbatim>\<open>ListTablesOutputSchema\<close>.
\<close>

definition ListTablesEntrySchema :: "('n, table_entry) zod" where
  "ListTablesEntrySchema v =
     (case z_object v of
        None \<Rightarrow> None
      | Some obj \<Rightarrow>
          (case (z_string (obj ''schema''),
                 z_string (obj ''name''),
                 z_optional (z_nullable z_string) (obj ''comment'')) of
             (Some s, Some n, Some c) \<Rightarrow>
               Some \<lparr>entry_schema = s, entry_name = n, entry_comment = c\<rparr>
           | _ \<Rightarrow> None))"

definition ListTablesOutputSchema :: "('n, table_entry list) zod" where
  "ListTablesOutputSchema = z_array ListTablesEntrySchema"

text \<open>
  The object that validation returns for one entry: the keys of the shape in the order of
  the shape, a key whose value is \<^verbatim>\<open>undefined\<close> left out.
\<close>

definition entry_json :: "table_entry \<Rightarrow> 'n json" where
  "entry_json e =
     JObj ([(''schema'', JStr (entry_schema e)), (''name'', JStr (entry_name e))]
           @ (case entry_comment e of
                None \<Rightarrow> []
              | Some None \<Rightarrow> [(''comment'', JNull)]
              | Some (Some c) \<Rightarrow> [(''comment'', JStr c)]))"

definition listTablesSql :: string where
  "listTablesSql = ''SELECT n.nspname as schema, c.relname as name, pgd.description as comment FROM pg_catalog.pg_class c JOIN pg_catalog.pg_namespace n ON n.oid = c.relnamespace LEFT JOIN pg_catalog.pg_description pgd ON pgd.objoid = c.oid AND pgd.objsubid = 0 WHERE c.relkind = 'r' AND n.nspname NOT IN ('pg_catalog', 'information_schema', 'pg_toast') AND n.nspname NOT LIKE 'pg_temp_%' AND n.nspname NOT LIKE 'pg_toast_temp_%' AND n.nspname NOT IN ('auth', 'storage', 'extensions', 'graphql', 'graphql_public', 'pgbouncer', 'realtime', 'supabase_functions', 'supabase_migrations', '_realtime') AND has_schema_privilege(n.oid, 'USAGE') AND has_table_privilege(c.oid, 'SELECT') ORDER BY n.nspname, c.relname''"

definition not_configured_message :: string where
  "not_configured_message = ''Error: Supabase instance not configured for this session. Please call 'configure_supabase_instance' first.''"

definition emptyShape :: "('n, unit) zod" where
  "emptyShape v = (case z_object v of None \<Rightarrow> None | Some obj \<Rightarrow> Some ())"

text \<open>
  The handler. \<^verbatim>\<open>createSupabaseClient\<close> is called before the \<^verbatim>\<open>try\<close> block, so an error
  it raises leaves the handler (\<open>Inl\<close>); everything from the rpc call on is inside the
  \<^verbatim>\<open>try\<close>, whose \<^verbatim>\<open>catch\<close> turns a rejection into a result.
\<close>

definition list_tables_handler ::
  "'n builtins \<Rightarrow> 'n backend \<Rightarrow> unit \<Rightarrow> MyMCPState \<Rightarrow> handler_outcome" where
  "list_tables_handler rt backend input st =
     (if \<not> isConfigured st \<or> \<not> truthy (supabaseUrl st) \<or> \<not> truthy (supabaseAnonKey st)
      then (Inr (error_text not_configured_message), st, [])
      else
        (case createSupabaseClient rt (supabaseUrl st) (supabaseAnonKey st) of
           Inl e \<Rightarrow> (Inl e, st, [])
         | Inr supabase \<Rightarrow>
             (case backend supabase ''execute_sql'' listTablesSql of
                Rejected m \<Rightarrow> Inr (error_text (''Exception: '' @ m))
              | Resolved data err \<Rightarrow>
                  (case err of
                     Some e \<Rightarrow> Inr (error_text (''Failed to list tables: '' @ error_message e))
                   | None \<Rightarrow>
                       (case ListTablesOutputSchema (Some data) of
                          None \<Rightarrow> Inr (error_text ''Failed to parse list_tables output.'')
                        | Some entries \<Rightarrow>
                            Inr (ok_text (JSON_stringify rt (JArr (map entry_json entries)) 2)))),
              st,
              [ClientCreated (client_url supabase) (client_key supabase),
               RpcCalled supabase ''execute_sql'' listTablesSql])))"

subsection \<open>Registration and dispatch\<close>

text \<open>
  \<^verbatim>\<open>this.server.tool(name, description, shape, handler)\<close>: the SDK validates the arguments
  of a call against the shape before it runs the handler, and answers a call whose
  arguments do not validate, or that names no registered tool, with a protocol error.
\<close>

datatype dispatch_error = UnknownTool | InvalidParams | HandlerThrew js_error

type_synonym call_outcome = "(dispatch_error + tool_result) \<times> MyMCPState \<times> backend_event list"

type_synonym 'n tool = "'n json option \<Rightarrow> MyMCPState \<Rightarrow> call_outcome"

definition server_tool ::
  "('n, 'a) zod \<Rightarrow> ('a \<Rightarrow> MyMCPState \<Rightarrow> handler_outcome) \<Rightarrow> 'n tool" where
  "server_tool shape handler args st =
     (case shape args of
        None \<Rightarrow> (Inl InvalidParams, st, [])
      | Some input \<Rightarrow>
          (case handler input st of
             (Inl e, st', evs) \<Rightarrow> (Inl (HandlerThrew e), st', evs)
           | (Inr r, st', evs) \<Rightarrow> (Inr r, st', evs)))"

text \<open>The registrations of \<^verbatim>\<open>init()\<close>, in its order.\<close>

definition tools :: "'n builtins \<Rightarrow> 'n backend \<Rightarrow> (string \<times> 'n tool) list" where
  "tools rt backend =
     [(''configure_supabase_instance'', server_tool (configShape rt) configure_handler),
      (''add'', server_tool addToolShape (add_handler rt)),
      (''list_tables'', server_tool emptyShape (list_tables_handler rt backend))]"

definition tools_call ::
  "'n builtins \<Rightarrow> 'n backend \<Rightarrow> string \<Rightarrow> 'n json option \<Rightarrow> MyMCPState \<Rightarrow> call_outcome" where
  "tools_call rt backend name args st =
     (case map_of (tools rt backend) name of
        None \<Rightarrow> (Inl UnknownTool, st, [])
      | Some run \<Rightarrow> run args st)"

text \<open>A session: tool calls one after the other, each with the backend it meets.\<close>

type_synonym 'n invocation = "'n backend \<times> string \<times> 'n json option"

fun run_session :: "'n builtins \<Rightarrow> 'n invocation list \<Rightarrow> MyMCPState \<Rightarrow> MyMCPState" where
  "run_session rt [] st = st"
| "run_session rt ((backend, name, args) # cs) st =
     run_session rt cs (fst (snd (tools_call rt backend name args st)))"

section \<open>A concrete runtime and concrete backends\<close>

text \<open>
  To evaluate the model at concrete inputs the abstract built-ins are instantiated.

  Numbers are the doubles whose value is an integer, each written as that integer.
  Every integer of magnitude up to \<open>2\<^sup>5\<^sup>3\<close> is one; above, a double has 53 significant
  bits. The sum of two doubles is the exact sum rounded to the nearest double, a tie
  going to the even significand (\<^verbatim>\<open>Number::add\<close>); overflow to infinity, far above the
  numbers used here, is left out. \<^verbatim>\<open>String(x)\<close> is the decimal numeral of \<open>x\<close>, which is
  what \<^verbatim>\<open>Number::toString\<close> gives up to magnitude \<open>2\<^sup>5\<^sup>3\<close>. A number literal is read by
  its integer part (the runs below use integer literals only).

  The URL test: the input, without leading and trailing spaces and control characters,
  starts with a scheme (a letter, then letters, digits, \<open>+\<close>, \<open>-\<close> or \<open>.\<close>, then a colon)
  and holds no space. \<^verbatim>\<open>createClient\<close> is the one of supabase-js: it requires both
  arguments and parses the URL with a trailing slash added. On the strings of the runs
  below both decide as \<^verbatim>\<open>new URL(s)\<close> and \<^verbatim>\<open>createClient\<close> do.
\<close>

fun exponent :: "nat \<Rightarrow> nat" where
  "exponent n = (if n < 2 ^ 53 then 0 else Suc (exponent (n div 2)))"

definition nearest_double :: "nat \<Rightarrow> nat" where
  "nearest_double n =
     (let e = exponent n; q = n div 2 ^ e; r = n mod 2 ^ e
      in if 2 ^ e < 2 * r \<or> (2 * r = 2 ^ e \<and> odd q) then (q + 1) * 2 ^ e else q * 2 ^ e)"

definition to_double :: "int \<Rightarrow> int" where
  "to_double i = (if i < 0 then - int (nearest_double (nat (- i))) else int (nearest_double (nat i)))"

definition double_add :: "int \<Rightarrow> int \<Rightarrow> int" where
  "double_add a b = to_double (a + b)"

fun decimal :: "nat \<Rightarrow> string" where
  "decimal n =
     (if n < 10 then [char_of (48 + n)] else decimal (n div 10) @ [char_of (48 + n mod 10)])"

definition int_to_string :: "int \<Rightarrow> string" where
  "int_to_string i = (if i < 0 then CHR ''-'' # decimal (nat (- i)) else decimal (nat i))"

fun digits_value :: "nat \<Rightarrow> string \<Rightarrow> nat" where
  "digits_value acc [] = acc"
| "digits_value acc (c # cs) = digits_value (10 * acc + (of_char c - 48)) cs"

definition int_of_literal :: "string \<Rightarrow> int" where
  "int_of_literal s =
     (case s of
        [] \<Rightarrow> 0
      | c # cs \<Rightarrow>
          if c = CHR ''-'' then - int (digits_value 0 (takeWhile is_digit cs))
          else int (digits_value 0 (takeWhile is_digit s)))"

definition is_alpha :: "char \<Rightarrow> bool" where
  "is_alpha c =
     (let n = (of_char c :: nat) in (65 \<le> n \<and> n \<le> 90) \<or> (97 \<le> n \<and> n \<le> 122))"

definition is_scheme_char :: "char \<Rightarrow> bool" where
  "is_scheme_char c =
     (let n = (of_char c :: nat)
      in is_alpha c \<or> (48 \<le> n \<and> n \<le> 57) \<or> c = CHR ''+'' \<or> c = CHR ''-'' \<or> c = CHR ''.'')"

fun scheme_rest :: "string \<Rightarrow> bool" where
  "scheme_rest [] = False"
| "scheme_rest (c # cs) = (c = CHR '':'' \<or> (is_scheme_char c \<and> scheme_rest cs))"

definition has_scheme :: "string \<Rightarrow> bool" where
  "has_scheme s = (case s of [] \<Rightarrow> False | c # cs \<Rightarrow> is_alpha c \<and> scheme_rest cs)"

definition is_c0_or_space :: "char \<Rightarrow> bool" where
  "is_c0_or_space c = ((of_char c :: nat) \<le> 32)"

definition trim :: "string \<Rightarrow> string" where
  "trim s = rev (dropWhile is_c0_or_space (rev (dropWhile is_c0_or_space s)))"

definition new_URL_ok :: "string \<Rightarrow> bool" where
  "new_URL_ok s = (has_scheme (trim s) \<and> list_all (\<lambda>c. c \<noteq> CHR '' '') (trim s))"

definition ensureTrailingSlash :: "string \<Rightarrow> string" where
  "ensureTrailingSlash u = (if u \<noteq> [] \<and> last u = CHR ''/'' then u else u @ ''/'')"

definition supabase_createClient :: "string \<Rightarrow> string \<Rightarrow> js_error + supabase_client" where
  "supabase_createClient u k =
     (if u = [] then Inl (Error ''supabaseUrl is required.'')
      else if k = [] then Inl (Error ''supabaseKey is required.'')
      else if new_URL_ok (ensureTrailingSlash u) then Inr \<lparr>client_url = u, client_key = k\<rparr>
      else Inl (Error ''Invalid URL''))"

definition int_builtins :: "int builtins" where
  "int_builtins =
     \<lparr>number_add = double_add, number_to_string = int_to_string,
      number_is_finite = (\<lambda>n. True),
      number_of_literal = (\<lambda>s. to_double (int_of_literal s)), url_parses = new_URL_ok,
      createClient = supabase_createClient\<rparr>"

text \<open>Backends, states and arguments of the concrete runs.\<close>

definition sample_backend :: "int backend" where
  "sample_backend client fn query =
     Resolved (JArr [JObj [(''schema'', JStr ''public''), (''name'', JStr ''users''),
                           (''comment'', JNull)]]) None"

definition failing_backend :: "int backend" where
  "failing_backend client fn query =
     Resolved JNull (Some (PostgrestError ''permission denied for function execute_sql''))"

definition malformed_backend :: "int backend" where
  "malformed_backend client fn query =
     Resolved (JArr [JObj [(''schema'', JStr ''public''), (''name'', JNum 7)]]) None"

definition no_comment_backend :: "int backend" where
  "no_comment_backend client fn query =
     Resolved (JArr [JObj [(''schema'', JStr ''public''), (''name'', JStr ''users'')]]) None"

definition extra_key_backend :: "int backend" where
  "extra_key_backend client fn query =
     Resolved (JArr [JObj [(''schema'', JStr ''public''), (''name'', JStr ''users''),
                           (''comment'', JNull), (''owner'', JStr ''postgres'')]]) None"



definition configured_state :: MyMCPState where
  "configured_state =
     \<lparr>isConfigured = True, supabaseUrl = Some ''https://x.supabase.co'',
      supabaseAnonKey = Some ''anon'', supabaseServiceKey = None\<rparr>"

definition empty_key_state :: MyMCPState where
  "empty_key_state =
     \<lparr>isConfigured = True, supabaseUrl = Some ''https://x.supabase.co'',
      supabaseAnonKey = Some '''', supabaseServiceKey = None\<rparr>"

definition first_config :: "int json" where
  "first_config =
     JObj [(''supabaseUrl'', JStr ''https://a.supabase.co''),
           (''supabaseAnonKey'', JStr ''anon-a''),
           (''supabaseServiceKey'', JStr ''service-a'')]"

definition second_config :: "int json" where
  "second_config =
     JObj [(''supabaseUrl'', JStr ''https://b.supabase.co''),
           (''supabaseAnonKey'', JStr ''anon-b'')]"

definition empty_key_config :: "int json" where
  "empty_key_config =
     JObj [(''supabaseUrl'', JStr ''https://x.supabase.co''), (''supabaseAnonKey'', JStr '''')]"

section \<open>Predicates of the statements\<close>

text \<open>
  The credentials a configured session holds: a URL that the URL check accepted and that
  is not empty, and an anon key, which is any string.
\<close>

definition credentials_present :: "'n builtins \<Rightarrow> MyMCPState \<Rightarrow> bool" where
  "credentials_present rt st =
     (case (supabaseUrl st, supabaseAnonKey st) of
        (Some u, Some k) \<Rightarrow> url_parses rt u \<and> u \<noteq> []
      | _ \<Rightarrow> False)"

text \<open>
  A record of the table listing: an object whose keys are exactly \<^verbatim>\<open>schema\<close>, \<^verbatim>\<open>name\<close> and
  \<^verbatim>\<open>comment\<close>, in any order, with a string, a string, and a string or \<^verbatim>\<open>null\<close>.
\<close>

definition is_table_record :: "'n json \<Rightarrow> bool" where
  "is_table_record j =
     (case j of
        JObj ps \<Rightarrow>
          distinct (map fst ps)
          \<and> set (map fst ps) = {''schema'', ''name'', ''comment''}
          \<and> (case map_of ps ''schema'' of Some (JStr s) \<Rightarrow> True | _ \<Rightarrow> False)
          \<and> (case map_of ps ''name'' of Some (JStr s) \<Rightarrow> True | _ \<Rightarrow> False)
          \<and> (case map_of ps ''comment'' of
                Some (JStr s) \<Rightarrow> True
              | Some JNull \<Rightarrow> True
              | _ \<Rightarrow> False)
      | _ \<Rightarrow> False)"

text \<open>
  The shape that the code accepts as a table listing: an array of objects with a string
  at \<^verbatim>\<open>schema\<close>, a string at \<^verbatim>\<open>name\<close> and, at \<^verbatim>\<open>comment\<close>, a string, \<^verbatim>\<open>null\<close> or nothing.
  Other keys do not count.
\<close>

definition entry_shape :: "'n json \<Rightarrow> bool" where
  "entry_shape j =
     (case j of
        JObj ps \<Rightarrow>
          (case map_of ps ''schema'' of Some (JStr s) \<Rightarrow> True | _ \<Rightarrow> False)
          \<and> (case map_of ps ''name'' of Some (JStr s) \<Rightarrow> True | _ \<Rightarrow> False)
          \<and> (case map_of ps ''comment'' of
                None \<Rightarrow> True
              | Some (JStr s) \<Rightarrow> True
              | Some JNull \<Rightarrow> True
              | _ \<Rightarrow> False)
      | _ \<Rightarrow> False)"

definition listing_shape :: "'n json \<Rightarrow> bool" where
  "listing_shape data = (case data of JArr xs \<Rightarrow> list_all entry_shape xs | _ \<Rightarrow> False)"

text \<open>
  Two objects are the same record when they have the same properties with the same
  values; the order of the keys does not count.
\<close>

definition same_properties :: "'n json \<Rightarrow> 'n json \<Rightarrow> bool" where
  "same_properties a b =
     (case (a, b) of
        (JObj ps, JObj qs) \<Rightarrow>
          distinct (map fst ps) \<and> distinct (map fst qs) \<and> set ps = set qs
      | _ \<Rightarrow> False)"

definition shuffled_backend :: "int backend" where
  "shuffled_backend client fn query =
     Resolved
       (JArr [JObj [(''name'', JStr ''users''), (''schema'', JStr ''public''),
                    (''comment'', JNull)],
              JObj [(''schema'', JStr ''app''), (''name'', JStr ''orders''),
                    (''comment'', JStr [CHR ''a'', CHR 0x22, CHR 0x0A, CHR ''b''])]])
       None"

section \<open>Properties\<close>

lemma truthy_simps [simp]:
  "truthy None = False" "truthy (Some s) = (s \<noteq> [])"
  by (simp_all add: truthy_def)

lemma list_tables_guard:
  "\<not> isConfigured st \<or> \<not> truthy (supabaseUrl st) \<or> \<not> truthy (supabaseAnonKey st) \<Longrightarrow>
   list_tables_handler rt backend input st = (Inr (error_text not_configured_message), st, [])"
  by (auto simp add: list_tables_handler_def)


lemma createClient_sample:
  "createClient int_builtins ''https://x.supabase.co'' ''anon'' =
     Inr \<lparr>client_url = ''https://x.supabase.co'', client_key = ''anon''\<rparr>"
  by (simp add: int_builtins_def supabase_createClient_def ensureTrailingSlash_def
      new_URL_ok_def trim_def is_c0_or_space_def has_scheme_def is_alpha_def is_scheme_char_def)


lemma list_tables_configured:
  assumes "isConfigured st" "supabaseUrl st = Some u" "u \<noteq> []"
    "supabaseAnonKey st = Some k" "k \<noteq> []"
    "createClient rt u k = Inr supabase"
  shows "list_tables_handler rt backend input st =
     ((case backend supabase ''execute_sql'' listTablesSql of
         Rejected m \<Rightarrow> Inr (error_text (''Exception: '' @ m))
       | Resolved data err \<Rightarrow>
           (case err of
              Some e \<Rightarrow> Inr (error_text (''Failed to list tables: '' @ error_message e))
            | None \<Rightarrow>
                (case ListTablesOutputSchema (Some data) of
                   None \<Rightarrow> Inr (error_text ''Failed to parse list_tables output.'')
                 | Some entries \<Rightarrow>
                     Inr (ok_text (JSON_stringify rt (JArr (map entry_json entries)) 2))))),
      st,
      [ClientCreated (client_url supabase) (client_key supabase),
       RpcCalled supabase ''execute_sql'' listTablesSql])"
  using assms by (simp add: list_tables_handler_def createSupabaseClient_def)

lemma server_tool_list_tables:
  "server_tool emptyShape (list_tables_handler rt backend) (Some (JObj ps)) st =
     (case list_tables_handler rt backend () st of
        (Inl e, st', evs) \<Rightarrow> (Inl (HandlerThrew e), st', evs)
      | (Inr r, st', evs) \<Rightarrow> (Inr r, st', evs))"
  by (simp add: server_tool_def emptyShape_def z_object_def)

lemma tools_call_list_tables:
  "tools_call rt backend ''list_tables'' args st =
     server_tool emptyShape (list_tables_handler rt backend) args st"
  by (simp add: tools_call_def tools_def)

lemma tools_call_add:
  "tools_call rt backend ''add'' args st = server_tool addToolShape (add_handler rt) args st"
  by (simp add: tools_call_def tools_def)

lemma tools_call_configure:
  "tools_call rt backend ''configure_supabase_instance'' args st =
     server_tool (configShape rt) configure_handler args st"
  by (simp add: tools_call_def tools_def)

subsection \<open>Before configuration\<close>

text \<open>
  C2. In the initial state (\<open>isConfigured = False\<close>, no credentials) the handler of
  \<^verbatim>\<open>list_tables\<close> returns the not-configured result, which carries the error marker,
  leaves the state as it is and produces no backend event: no client is constructed and
  no rpc call is made. The same holds for the call dispatched through the server, and
  whatever the arguments of the call the list of backend events is empty.
\<close>

theorem list_tables_before_configure:
  "list_tables_handler rt backend input initialState =
     (Inr (error_text not_configured_message), initialState, [])
   \<and> isError (error_text not_configured_message)
   \<and> tools_call rt backend ''list_tables'' (Some (JObj ps)) initialState =
       (Inr (error_text not_configured_message), initialState, [])
   \<and> snd (snd (tools_call rt backend ''list_tables'' args initialState)) = []"
proof -
  have h: "list_tables_handler rt backend input initialState =
     (Inr (error_text not_configured_message), initialState, [])" for input
    by (rule list_tables_guard) (simp add: initialState_def)
  have "snd (snd (tools_call rt backend ''list_tables'' args initialState)) = []"
    by (simp add: tools_call_list_tables server_tool_def h split: option.splits)
  moreover have "tools_call rt backend ''list_tables'' (Some (JObj ps)) initialState =
       (Inr (error_text not_configured_message), initialState, [])"
    by (simp add: tools_call_list_tables server_tool_list_tables h)
  ultimately show ?thesis
    using h by (simp add: error_text_def)
qed

theorem list_tables_before_configure_witness:
  "list_tables_handler int_builtins sample_backend () initialState =
     (Inr (error_text not_configured_message), initialState, [])
   \<and> isError (error_text not_configured_message)
   \<and> tools_call int_builtins sample_backend ''list_tables'' (Some (JObj [])) initialState =
       (Inr (error_text not_configured_message), initialState, [])
   \<and> snd (snd (tools_call int_builtins sample_backend ''list_tables'' None initialState)) = []"
  by (rule list_tables_before_configure)

text \<open>
  C10. Also where \<open>isConfigured\<close> holds: when \<open>supabaseUrl\<close> or \<open>supabaseAnonKey\<close> is the
  empty string, \<^verbatim>\<open>list_tables\<close> returns the not-configured result, the one of an
  unconfigured session, with no backend event. The guard tests each credential.
\<close>

theorem list_tables_empty_credentials:
  assumes "isConfigured st"
    and "supabaseUrl st = Some [] \<or> supabaseAnonKey st = Some []"
  shows "list_tables_handler rt backend input st =
           (Inr (error_text not_configured_message), st, [])
         \<and> fst (list_tables_handler rt backend input st) =
           fst (list_tables_handler rt backend input initialState)"
proof -
  have "\<not> truthy (supabaseUrl st) \<or> \<not> truthy (supabaseAnonKey st)"
    using assms(2) by auto
  then have "list_tables_handler rt backend input st =
      (Inr (error_text not_configured_message), st, [])"
    by (simp add: list_tables_guard)
  moreover have "list_tables_handler rt backend input initialState =
      (Inr (error_text not_configured_message), initialState, [])"
    by (rule list_tables_guard) (simp add: initialState_def)
  ultimately show ?thesis by simp
qed

theorem list_tables_empty_credentials_witness:
  "isConfigured empty_key_state
   \<and> supabaseAnonKey empty_key_state = Some []
   \<and> list_tables_handler int_builtins sample_backend () empty_key_state =
           (Inr (error_text not_configured_message), empty_key_state, [])
   \<and> fst (list_tables_handler int_builtins sample_backend () empty_key_state) =
           fst (list_tables_handler int_builtins sample_backend () initialState)"
proof -
  have a: "isConfigured empty_key_state" by (simp add: empty_key_state_def)
  have b: "supabaseUrl empty_key_state = Some [] \<or> supabaseAnonKey empty_key_state = Some []"
    by (simp add: empty_key_state_def)
  have c: "supabaseAnonKey empty_key_state = Some []"
    by (simp add: empty_key_state_def)
  show ?thesis
    using list_tables_empty_credentials [OF a b, of int_builtins sample_backend "()"] a c
    by blast
qed

subsection \<open>Exceptions and \<^verbatim>\<open>list_tables\<close>\<close>




subsection \<open>Backend errors and malformed data\<close>

text \<open>
  C8. In a configured session, when the rpc call (on the client that the factory
  returned) resolves with an error, the result of \<^verbatim>\<open>list_tables\<close> carries the error
  marker and its only payload is \<^verbatim>\<open>Failed to list tables: \<close> followed by the message of
  the backend, unchanged.
\<close>

theorem list_tables_backend_error:
  assumes "isConfigured st"
    and "supabaseUrl st = Some u" and "u \<noteq> []"
    and "supabaseAnonKey st = Some k" and "k \<noteq> []"
    and "createClient rt u k = Inr supabase"
    and "backend supabase ''execute_sql'' listTablesSql = Resolved data (Some e)"
  shows "list_tables_handler rt backend input st =
           (Inr (ToolResult [Text (''Failed to list tables: '' @ error_message e)] True), st,
            [ClientCreated (client_url supabase) (client_key supabase),
             RpcCalled supabase ''execute_sql'' listTablesSql])"
  by (simp add: list_tables_configured [OF assms(1-6)] assms(7) error_text_def)

theorem list_tables_backend_error_witness:
  "isConfigured configured_state
   \<and> list_tables_handler int_builtins failing_backend () configured_state =
       (Inr (ToolResult
              [Text ''Failed to list tables: permission denied for function execute_sql'']
              True),
        configured_state,
        [ClientCreated ''https://x.supabase.co'' ''anon'',
         RpcCalled \<lparr>client_url = ''https://x.supabase.co'', client_key = ''anon''\<rparr>
           ''execute_sql'' listTablesSql])"
proof -
  have a: "isConfigured configured_state"
    and b: "supabaseUrl configured_state = Some ''https://x.supabase.co''"
    and c: "supabaseAnonKey configured_state = Some ''anon''"
    by (simp_all add: configured_state_def)
  have d: "failing_backend \<lparr>client_url = ''https://x.supabase.co'', client_key = ''anon''\<rparr>
      ''execute_sql'' listTablesSql
      = Resolved JNull (Some (PostgrestError ''permission denied for function execute_sql''))"
    by (simp add: failing_backend_def)
  show ?thesis
    using list_tables_backend_error [where backend = failing_backend and rt = int_builtins
        and input = "()", OF a b _ c _ createClient_sample d] a
    by simp
qed

lemma ListTablesEntrySchema_None_iff:
  "ListTablesEntrySchema (Some j) = None \<longleftrightarrow> \<not> entry_shape j"
  by (auto simp add: ListTablesEntrySchema_def entry_shape_def z_object_def z_string_def
      z_optional_def z_nullable_def split: json.splits option.splits)

lemma parse_each_None_iff:
  "parse_each ListTablesEntrySchema xs = None \<longleftrightarrow> \<not> list_all entry_shape xs"
proof (induction xs)
  case Nil
  show ?case by simp
next
  case (Cons x xs)
  show ?case
  proof (cases "ListTablesEntrySchema (Some x)")
    case None
    then show ?thesis
      using ListTablesEntrySchema_None_iff [of x] by simp
  next
    case (Some e)
    then have "entry_shape x"
      using ListTablesEntrySchema_None_iff [of x] by auto
    with Some Cons.IH show ?thesis
      by (cases "parse_each ListTablesEntrySchema xs") simp_all
  qed
qed

lemma ListTablesOutputSchema_None_iff:
  "ListTablesOutputSchema (Some data) = None \<longleftrightarrow> \<not> listing_shape data"
  by (cases data)
    (simp_all add: ListTablesOutputSchema_def z_array_def listing_shape_def parse_each_None_iff)

text \<open>
  C5, as amended. In a configured session, when the rpc call resolves without an error
  and the data are not an array of objects with a string at \<^verbatim>\<open>schema\<close>, a string at
  \<^verbatim>\<open>name\<close> and, at \<^verbatim>\<open>comment\<close>, a string, \<^verbatim>\<open>null\<close> or nothing, the result carries the error
  marker and its only payload is the fixed text \<^verbatim>\<open>Failed to parse list_tables output.\<close>:
  nothing of the data is in it. The claim as stated asks this of all data that are not a
  sequence of records with \<^verbatim>\<open>schema\<close>, \<^verbatim>\<open>name\<close> and \<^verbatim>\<open>comment\<close>; in the schema of the code
  the comment is optional and other keys are dropped, and the counterexample after the
  theorem has a record without a comment and a record with a fourth key, both returned
  as listings.
\<close>

theorem list_tables_parse_failure:
  assumes "isConfigured st"
    and "supabaseUrl st = Some u" and "u \<noteq> []"
    and "supabaseAnonKey st = Some k" and "k \<noteq> []"
    and "createClient rt u k = Inr supabase"
    and "backend supabase ''execute_sql'' listTablesSql = Resolved data None"
    and "\<not> listing_shape data"
  shows "fst (list_tables_handler rt backend input st) =
           Inr (ToolResult [Text ''Failed to parse list_tables output.''] True)"
proof -
  have "ListTablesOutputSchema (Some data) = None"
    using assms(8) by (simp add: ListTablesOutputSchema_None_iff)
  then show ?thesis
    by (simp add: list_tables_configured [OF assms(1-6)] assms(7) error_text_def)
qed

lemma four_keys:
  "{''schema'', ''name'', ''comment'', ''owner''} \<noteq> {''schema'', ''name'', ''comment''}"
proof
  assume e: "{''schema'', ''name'', ''comment'', ''owner''} = {''schema'', ''name'', ''comment''}"
  have "''owner'' \<in> {''schema'', ''name'', ''comment'', ''owner''}" by simp
  then have "''owner'' \<in> {''schema'', ''name'', ''comment''}" unfolding e .
  then show False by simp
qed

theorem list_tables_parse_failure_counterexample:
  \<open>\<not> list_all is_table_record
       [JObj [(''schema'', JStr ''public''), (''name'', JStr ''users'')] :: int json]
   \<and> fst (list_tables_handler int_builtins no_comment_backend () configured_state) =
       Inr (ToolResult [Text (''['' @ CHR 0x0A # ''  {'' @ CHR 0x0A
         # ''    "schema": "public",'' @ CHR 0x0A
         # ''    "name": "users"'' @ CHR 0x0A
         # ''  }'' @ CHR 0x0A # '']'')] False)
   \<and> \<not> list_all is_table_record
       [JObj [(''schema'', JStr ''public''), (''name'', JStr ''users''), (''comment'', JNull),
              (''owner'', JStr ''postgres'')] :: int json]
   \<and> fst (list_tables_handler int_builtins extra_key_backend () configured_state) =
       Inr (ToolResult [Text (''['' @ CHR 0x0A # ''  {'' @ CHR 0x0A
         # ''    "schema": "public",'' @ CHR 0x0A
         # ''    "name": "users",'' @ CHR 0x0A
         # ''    "comment": null'' @ CHR 0x0A
         # ''  }'' @ CHR 0x0A # '']'')] False)\<close>
proof -
  have a: "isConfigured configured_state"
    and b: "supabaseUrl configured_state = Some ''https://x.supabase.co''"
    and c: "supabaseAnonKey configured_state = Some ''anon''"
    by (simp_all add: configured_state_def)
  have "\<not> list_all is_table_record
       [JObj [(''schema'', JStr ''public''), (''name'', JStr ''users'')] :: int json]"
    by (simp add: is_table_record_def)
  moreover have \<open>fst (list_tables_handler int_builtins no_comment_backend () configured_state) =
       Inr (ToolResult [Text (''['' @ CHR 0x0A # ''  {'' @ CHR 0x0A
         # ''    "schema": "public",'' @ CHR 0x0A
         # ''    "name": "users"'' @ CHR 0x0A
         # ''  }'' @ CHR 0x0A # '']'')] False)\<close>
    by (simp add: list_tables_configured [OF a b _ c _ createClient_sample]
        no_comment_backend_def ListTablesOutputSchema_def ListTablesEntrySchema_def z_array_def
        z_object_def z_string_def z_optional_def z_nullable_def ok_text_def JSON_stringify_def
        entry_json_def QuoteJSONString_def quote_char_def numeral_2_eq_2)
  moreover have "\<not> list_all is_table_record
       [JObj [(''schema'', JStr ''public''), (''name'', JStr ''users''), (''comment'', JNull),
              (''owner'', JStr ''postgres'')] :: int json]"
    using four_keys by (simp add: is_table_record_def)
  moreover have \<open>fst (list_tables_handler int_builtins extra_key_backend () configured_state) =
       Inr (ToolResult [Text (''['' @ CHR 0x0A # ''  {'' @ CHR 0x0A
         # ''    "schema": "public",'' @ CHR 0x0A
         # ''    "name": "users",'' @ CHR 0x0A
         # ''    "comment": null'' @ CHR 0x0A
         # ''  }'' @ CHR 0x0A # '']'')] False)\<close>
    by (simp add: list_tables_configured [OF a b _ c _ createClient_sample]
        extra_key_backend_def ListTablesOutputSchema_def ListTablesEntrySchema_def z_array_def
        z_object_def z_string_def z_optional_def z_nullable_def ok_text_def JSON_stringify_def
        entry_json_def QuoteJSONString_def quote_char_def numeral_2_eq_2)
  ultimately show ?thesis by simp
qed

theorem list_tables_parse_failure_witness:
  "\<not> listing_shape (JArr [JObj [(''schema'', JStr ''public''), (''name'', JNum (7::int))]])
   \<and> fst (list_tables_handler int_builtins malformed_backend () configured_state) =
           Inr (ToolResult [Text ''Failed to parse list_tables output.''] True)"
proof -
  have a: "isConfigured configured_state"
    and b: "supabaseUrl configured_state = Some ''https://x.supabase.co''"
    and c: "supabaseAnonKey configured_state = Some ''anon''"
    by (simp_all add: configured_state_def)
  have d: "malformed_backend \<lparr>client_url = ''https://x.supabase.co'', client_key = ''anon''\<rparr>
      ''execute_sql'' listTablesSql
      = Resolved (JArr [JObj [(''schema'', JStr ''public''), (''name'', JNum 7)]]) None"
    by (simp add: malformed_backend_def)
  have e: "\<not> listing_shape
      (JArr [JObj [(''schema'', JStr ''public''), (''name'', JNum (7::int))]])"
    by (simp add: listing_shape_def entry_shape_def)
  show ?thesis
    using list_tables_parse_failure [where backend = malformed_backend and rt = int_builtins
        and input = "()", OF a b _ c _ createClient_sample d e] e
    by simp
qed

subsection \<open>\<^verbatim>\<open>add\<close>\<close>

declare exponent.simps [simp del]

declare decimal.simps [simp del]

lemma exponent_safe: "n < 2 ^ 53 \<Longrightarrow> exponent n = 0"
  by (subst exponent.simps) simp

lemma nearest_double_safe: "n < 2 ^ 53 \<Longrightarrow> nearest_double n = n"
  by (simp add: nearest_double_def exponent_safe)

lemma to_double_safe: "\<bar>i\<bar> < 2 ^ 53 \<Longrightarrow> to_double i = i"
proof (cases "i < 0")
  case True
  assume "\<bar>i\<bar> < 2 ^ 53"
  with True have "nat (- i) < 2 ^ 53"
    by (simp add: nat_less_iff)
  with True show ?thesis
    by (simp add: to_double_def nearest_double_safe)
next
  case False
  assume "\<bar>i\<bar> < 2 ^ 53"
  with False have "nat i < 2 ^ 53"
    by (simp add: nat_less_iff)
  with False show ?thesis
    by (simp add: to_double_def nearest_double_safe)
qed

text \<open>\<^const>\<open>decimal\<close> writes the decimal numeral: its digits, read back, give the number.\<close>

lemma digits_value_snoc:
  "digits_value acc (xs @ [c]) = 10 * digits_value acc xs + (of_char c - 48)"
  by (induction xs arbitrary: acc) simp_all

lemma digits_value_decimal: "digits_value 0 (decimal n) = n"
proof (induction n rule: decimal.induct)
  case (1 n)
  show ?case
  proof (cases "n < 10")
    case True
    then show ?thesis
      by (subst decimal.simps) simp
  next
    case False
    have "n mod 10 < 10" by simp
    then have "(of_char (char_of (48 + n mod 10) :: char) :: nat) - 48 = n mod 10"
      by simp
    with False 1 show ?thesis
      by (subst decimal.simps) (simp add: digits_value_snoc del: of_char_of)
  qed
qed

lemma decimal_digits: "list_all is_digit (decimal n)"
proof (induction n rule: decimal.induct)
  case (1 n)
  have d: "is_digit (char_of (48 + m))" if "m < 10" for m :: nat
    using that by (simp add: is_digit_def)
  show ?case
  proof (cases "n < 10")
    case True
    then show ?thesis
      by (subst decimal.simps) (simp add: d)
  next
    case False
    have "n mod 10 < 10" by simp
    with False 1 show ?thesis
      by (subst decimal.simps) (simp add: d)
  qed
qed

lemma decimal_Cons: "\<exists>c cs. decimal n = c # cs \<and> is_digit c"
proof -
  have "decimal n \<noteq> []"
    by (subst decimal.simps) simp
  then obtain c cs where "decimal n = c # cs"
    by (cases "decimal n") auto
  with decimal_digits [of n] show ?thesis by auto
qed

lemma int_of_literal_int_to_string: "int_of_literal (int_to_string i) = i"
proof -
  have t: "takeWhile is_digit (decimal n) = decimal n" for n
    using decimal_digits [of n] by (simp add: takeWhile_eq_all_conv list_all_iff)
  show ?thesis
  proof (cases "i < 0")
    case True
    then show ?thesis
      by (simp add: int_of_literal_def int_to_string_def t digits_value_decimal)
  next
    case False
    obtain c cs where c: "decimal (nat i) = c # cs" "is_digit c"
      using decimal_Cons by blast
    then have "c \<noteq> CHR ''-''"
      by (auto simp add: is_digit_def)
    moreover have "digits_value 0 (takeWhile is_digit (c # cs)) = nat i"
      using t [of "nat i"] digits_value_decimal [of "nat i"] by (simp only: c)
    ultimately show ?thesis
      using False by (simp add: int_of_literal_def int_to_string_def c)
  qed
qed

lemma tools_call_add_numbers:
  "tools_call rt backend ''add'' (Some (JObj [(''a'', JNum a), (''b'', JNum b)])) st =
     (Inr (ToolResult [Text (number_to_string rt (number_add rt a b))] False), st, [])"
  by (simp add: tools_call_add server_tool_def addToolShape_def z_object_def z_number_def
      add_handler_def ok_text_def)

text \<open>
  C9, as amended. For all integers \<open>a\<close> and \<open>b\<close> such that \<open>a\<close>, \<open>b\<close> and \<open>a + b\<close> are of
  magnitude below \<open>2\<^sup>5\<^sup>3\<close>, where the arithmetic of doubles is exact, the tool \<^verbatim>\<open>add\<close>
  returns a result without the error marker whose only payload is the decimal numeral
  of \<open>a + b\<close> (read back, its digits give \<open>a + b\<close>), in every session state, which it
  returns unchanged, and with no backend event. For all numbers the payload is
  \<^verbatim>\<open>String(a + b)\<close> as JavaScript evaluates it. The claim as stated has the decimal
  numeral of the sum for every pair of numbers; the counterexample after the theorem is
  \<^verbatim>\<open>add({a: 9007199254740992, b: 1})\<close>, whose payload is \<^verbatim>\<open>"9007199254740992"\<close>.
\<close>

theorem add_safe_integers:
  assumes "\<bar>a\<bar> < 2 ^ 53" and "\<bar>b\<bar> < 2 ^ 53" and "\<bar>a + b\<bar> < 2 ^ 53"
  shows "tools_call int_builtins backend ''add''
           (Some (JObj [(''a'', JNum a), (''b'', JNum b)])) st =
           (Inr (ToolResult [Text (int_to_string (a + b))] False), st, [])
         \<and> int_of_literal (int_to_string (a + b)) = a + b
         \<and> tools_call rt backend' ''add'' (Some (JObj [(''a'', JNum x), (''b'', JNum y)])) st' =
           (Inr (ToolResult [Text (number_to_string rt (number_add rt x y))] False), st', [])"
proof -
  have "number_add int_builtins a b = a + b"
    using assms(3) by (simp add: int_builtins_def double_add_def to_double_safe)
  moreover have "number_to_string int_builtins = int_to_string"
    by (simp add: int_builtins_def)
  ultimately show ?thesis
    by (simp add: tools_call_add_numbers int_of_literal_int_to_string)
qed

theorem add_safe_integers_counterexample:
  "tools_call int_builtins sample_backend ''add''
     (Some (JObj [(''a'', JNum 9007199254740992), (''b'', JNum 1)])) initialState =
     (Inr (ToolResult [Text ''9007199254740992''] False), initialState, [])
   \<and> int_to_string (9007199254740992 + 1) = ''9007199254740993''"
proof -
  have "double_add 9007199254740992 1 = 9007199254740992"
    by (simp add: double_add_def to_double_def nearest_double_def exponent.simps)
  moreover have "int_to_string 9007199254740992 = ''9007199254740992''"
    by (simp add: int_to_string_def decimal.simps char_of_eq_iff)
  moreover have "int_to_string (9007199254740992 + 1) = ''9007199254740993''"
    by (simp add: int_to_string_def decimal.simps char_of_eq_iff)
  ultimately show ?thesis
    by (simp add: tools_call_add_numbers int_builtins_def)
qed

theorem add_safe_integers_witness:
  "\<bar>2 :: int\<bar> < 2 ^ 53 \<and> \<bar>3 :: int\<bar> < 2 ^ 53 \<and> \<bar>2 + 3 :: int\<bar> < 2 ^ 53
   \<and> tools_call int_builtins sample_backend ''add''
        (Some (JObj [(''a'', JNum 2), (''b'', JNum 3)])) configured_state =
        (Inr (ToolResult [Text ''5''] False), configured_state, [])"
proof -
  have a: "\<bar>2 :: int\<bar> < 2 ^ 53" and b: "\<bar>3 :: int\<bar> < 2 ^ 53"
    and c: "\<bar>2 + 3 :: int\<bar> < 2 ^ 53"
    by simp_all
  have d: "int_to_string 5 = ''5''"
    by (simp add: int_to_string_def decimal.simps char_of_eq_iff)
  show ?thesis
    using add_safe_integers [OF a b c, where backend = sample_backend
        and st = configured_state and rt = int_builtins and backend' = sample_backend
        and x = 0 and y = 0 and st' = initialState] a b c
    by (simp add: d)
qed

subsection \<open>\<^verbatim>\<open>configure_supabase_instance\<close>\<close>

lemma configure_handler_state:
  "configure_handler input st =
     (Inr (ok_text (''Session configured for Supabase instance: '' @ input_supabaseUrl input)),
      \<lparr>isConfigured = True, supabaseUrl = Some (input_supabaseUrl input),
       supabaseAnonKey = Some (input_supabaseAnonKey input),
       supabaseServiceKey = input_supabaseServiceKey input\<rparr>, [])"
  by (simp add: configure_handler_def setState_def)

lemma tools_call_configure_valid:
  "configShape rt args = Some input \<Longrightarrow>
   tools_call rt backend ''configure_supabase_instance'' args st =
     (Inr (ok_text (''Session configured for Supabase instance: '' @ input_supabaseUrl input)),
      \<lparr>isConfigured = True, supabaseUrl = Some (input_supabaseUrl input),
       supabaseAnonKey = Some (input_supabaseAnonKey input),
       supabaseServiceKey = input_supabaseServiceKey input\<rparr>, [])"
  by (simp add: tools_call_configure server_tool_def configure_handler_state)

lemma tools_call_configure_invalid:
  "configShape rt args = None \<Longrightarrow>
   tools_call rt backend ''configure_supabase_instance'' args st = (Inl InvalidParams, st, [])"
  by (simp add: tools_call_configure server_tool_def)

lemma configShape_first: "configShape int_builtins (Some first_config) =
    Some \<lparr>input_supabaseUrl = ''https://a.supabase.co'', input_supabaseAnonKey = ''anon-a'',
          input_supabaseServiceKey = Some ''service-a''\<rparr>"
  by (simp add: configShape_def first_config_def z_object_def z_string_url_def z_string_def
      z_optional_def int_builtins_def new_URL_ok_def trim_def is_c0_or_space_def has_scheme_def is_alpha_def is_scheme_char_def)

lemma configShape_second: "configShape int_builtins (Some second_config) =
    Some \<lparr>input_supabaseUrl = ''https://b.supabase.co'', input_supabaseAnonKey = ''anon-b'',
          input_supabaseServiceKey = None\<rparr>"
  by (simp add: configShape_def second_config_def z_object_def z_string_url_def z_string_def
      z_optional_def int_builtins_def new_URL_ok_def trim_def is_c0_or_space_def has_scheme_def is_alpha_def is_scheme_char_def)

text \<open>
  C6. After a call of \<^verbatim>\<open>configure_supabase_instance\<close> with valid arguments the state is
  exactly \<open>isConfigured = True\<close> with the URL, the anon key and the service key of the
  arguments (no service key when the arguments have none); after two such calls it is
  what the second call alone sets, so a service key of the first call does not survive a
  second call without one.
\<close>

theorem configure_overwrites:
  assumes "configShape rt args1 = Some input1" and "configShape rt args2 = Some input2"
  shows "fst (snd (tools_call rt backend ''configure_supabase_instance'' args1 st)) =
           \<lparr>isConfigured = True, supabaseUrl = Some (input_supabaseUrl input1),
            supabaseAnonKey = Some (input_supabaseAnonKey input1),
            supabaseServiceKey = input_supabaseServiceKey input1\<rparr>
         \<and> run_session rt
             [(backend, ''configure_supabase_instance'', args1),
              (backend', ''configure_supabase_instance'', args2)] st =
           \<lparr>isConfigured = True, supabaseUrl = Some (input_supabaseUrl input2),
            supabaseAnonKey = Some (input_supabaseAnonKey input2),
            supabaseServiceKey = input_supabaseServiceKey input2\<rparr>"
  by (simp add: tools_call_configure_valid [OF assms(1)] tools_call_configure_valid [OF assms(2)])

theorem configure_overwrites_witness:
  "fst (snd (tools_call int_builtins sample_backend ''configure_supabase_instance''
              (Some first_config) initialState)) =
      \<lparr>isConfigured = True, supabaseUrl = Some ''https://a.supabase.co'',
       supabaseAnonKey = Some ''anon-a'', supabaseServiceKey = Some ''service-a''\<rparr>
   \<and> run_session int_builtins
        [(sample_backend, ''configure_supabase_instance'', Some first_config),
         (sample_backend, ''configure_supabase_instance'', Some second_config)] initialState =
      \<lparr>isConfigured = True, supabaseUrl = Some ''https://b.supabase.co'',
       supabaseAnonKey = Some ''anon-b'', supabaseServiceKey = None\<rparr>"
  using configure_overwrites [OF configShape_first configShape_second,
      where backend = sample_backend and backend' = sample_backend and st = initialState]
  by (simp add: tools_call_configure_valid [OF configShape_first]
      tools_call_configure_valid [OF configShape_second])

text \<open>
  C7. A call of \<^verbatim>\<open>configure_supabase_instance\<close> whose \<^verbatim>\<open>supabaseUrl\<close> is a string that the
  URL check does not accept (the empty string is one) is answered with a validation
  error before the handler runs: the state is unchanged and there is no backend event.
\<close>

theorem configure_rejects_bad_url:
  assumes "map_of ps ''supabaseUrl'' = Some (JStr u)" and "\<not> url_parses rt u"
  shows "tools_call rt backend ''configure_supabase_instance'' (Some (JObj ps)) st =
           (Inl InvalidParams, st, [])"
proof -
  have "configShape rt (Some (JObj ps)) = None"
    using assms by (simp add: configShape_def z_object_def z_string_url_def)
  then show ?thesis by (rule tools_call_configure_invalid)
qed

theorem configure_rejects_bad_url_witness:
  "\<not> url_parses int_builtins ''''
   \<and> tools_call int_builtins sample_backend ''configure_supabase_instance''
        (Some (JObj [(''supabaseUrl'', JStr ''''), (''supabaseAnonKey'', JStr ''k'')]))
        configured_state
      = (Inl InvalidParams, configured_state, [])"
proof -
  have a: "map_of [(''supabaseUrl'', JStr ''''), (''supabaseAnonKey'', JStr ''k'')] ''supabaseUrl''
      = Some (JStr '''' :: int json)"
    by simp
  have b: "\<not> url_parses int_builtins ''''"
    by (simp add: int_builtins_def new_URL_ok_def trim_def is_c0_or_space_def has_scheme_def)
  show ?thesis
    using configure_rejects_bad_url [OF a b, where backend = sample_backend
        and st = configured_state] b
    by simp
qed

subsection \<open>The invariant of the session state\<close>

lemma server_tool_keeps_state:
  assumes "\<And>input. fst (snd (handler input st)) = st"
  shows "fst (snd (server_tool shape handler args st)) = st"
proof (cases "shape args")
  case None
  then show ?thesis by (simp add: server_tool_def)
next
  case (Some input)
  obtain r st' evs where h: "handler input st = (r, st', evs)"
    by (cases "handler input st") auto
  with assms [of input] have "st' = st" by simp
  with h Some show ?thesis
    by (cases r) (simp_all add: server_tool_def)
qed

lemma tools_call_keeps_credentials:
  assumes e: "\<not> url_parses rt []"
    and inv: "isConfigured st \<Longrightarrow> credentials_present rt st"
    and c: "isConfigured (fst (snd (tools_call rt backend name args st)))"
  shows "credentials_present rt (fst (snd (tools_call rt backend name args st)))"
proof -
  consider (conf) "name = ''configure_supabase_instance''" | (add) "name = ''add''"
    | (list) "name = ''list_tables''"
    | (other) "name \<noteq> ''configure_supabase_instance''" "name \<noteq> ''add''"
        "name \<noteq> ''list_tables''"
    by blast
  then show ?thesis
  proof cases
    case conf
    show ?thesis
    proof (cases "configShape rt args")
      case None
      then show ?thesis
        using inv c by (simp add: conf tools_call_configure_invalid)
    next
      case (Some input)
      have "url_parses rt (input_supabaseUrl input)"
        using Some
        by (auto simp add: configShape_def z_object_def z_string_url_def
            split: option.splits json.splits if_splits)
      moreover from this e have "input_supabaseUrl input \<noteq> []" by auto
      ultimately show ?thesis
        by (simp add: conf tools_call_configure_valid [OF Some] credentials_present_def)
    qed
  next
    case add
    have "fst (snd (add_handler rt input st)) = st" for input
      by (simp add: add_handler_def)
    then have "fst (snd (tools_call rt backend name args st)) = st"
      unfolding add tools_call_add by (rule server_tool_keeps_state)
    then show ?thesis using inv c by simp
  next
    case list
    have "fst (snd (list_tables_handler rt backend input st)) = st" for input
      by (simp add: list_tables_handler_def split: sum.splits)
    then have "fst (snd (tools_call rt backend name args st)) = st"
      unfolding list tools_call_list_tables by (rule server_tool_keeps_state)
    then show ?thesis using inv c by simp
  next
    case other
    then have "fst (snd (tools_call rt backend name args st)) = st"
      by (simp add: tools_call_def tools_def)
    then show ?thesis using inv c by simp
  qed
qed

lemma run_session_keeps_credentials:
  assumes e: "\<not> url_parses rt []"
  shows "(isConfigured st \<Longrightarrow> credentials_present rt st) \<Longrightarrow>
         isConfigured (run_session rt cs st) \<Longrightarrow> credentials_present rt (run_session rt cs st)"
proof (induction cs arbitrary: st)
  case Nil
  then show ?case by simp
next
  case (Cons c cs)
  obtain backend name args where c: "c = (backend, name, args)"
    by (cases c) auto
  show ?case
    unfolding c run_session.simps
  proof (rule Cons.IH)
    show "credentials_present rt (fst (snd (tools_call rt backend name args st)))"
      if "isConfigured (fst (snd (tools_call rt backend name args st)))"
      using e Cons.prems(1) that by (rule tools_call_keeps_credentials)
    show "isConfigured (run_session rt cs (fst (snd (tools_call rt backend name args st))))"
      using Cons.prems(2) by (simp add: c)
  qed
qed

text \<open>
  C1, as amended. In every state that a sequence of tool calls reaches from
  \<^const>\<open>initialState\<close>, if \<open>isConfigured\<close> holds then \<open>supabaseUrl\<close> is a string that the URL
  check accepted, not empty as the check rejects the empty string, and \<open>supabaseAnonKey\<close>
  is a string. The key may be empty: its schema is \<^verbatim>\<open>z.string()\<close>, and the
  counterexample after the theorem is a call that passes validation and leaves a
  configured state with the empty key.
\<close>

theorem configured_has_credentials:
  assumes "\<not> url_parses rt []"
    and "isConfigured (run_session rt cs initialState)"
  shows "\<exists>u k. supabaseUrl (run_session rt cs initialState) = Some u \<and> u \<noteq> []
           \<and> url_parses rt u
           \<and> supabaseAnonKey (run_session rt cs initialState) = Some k"
proof -
  have "credentials_present rt (run_session rt cs initialState)"
    using assms(1) _ assms(2)
    by (rule run_session_keeps_credentials) (simp add: initialState_def)
  then show ?thesis
    by (auto simp add: credentials_present_def split: option.splits)
qed

theorem configured_has_credentials_counterexample:
  "isConfigured
     (run_session int_builtins
        [(sample_backend, ''configure_supabase_instance'', Some empty_key_config)] initialState)
   \<and> supabaseAnonKey
     (run_session int_builtins
        [(sample_backend, ''configure_supabase_instance'', Some empty_key_config)] initialState)
     = Some ''''"
proof -
  have "configShape int_builtins (Some empty_key_config) =
    Some \<lparr>input_supabaseUrl = ''https://x.supabase.co'', input_supabaseAnonKey = '''',
          input_supabaseServiceKey = None\<rparr>"
    by (simp add: configShape_def empty_key_config_def z_object_def z_string_url_def z_string_def
      z_optional_def int_builtins_def new_URL_ok_def trim_def is_c0_or_space_def has_scheme_def is_alpha_def is_scheme_char_def)
  then show ?thesis
    by (simp add: tools_call_configure_valid)
qed

theorem configured_has_credentials_witness:
  "\<not> url_parses int_builtins ''''
   \<and> isConfigured (run_session int_builtins
        [(sample_backend, ''configure_supabase_instance'', Some empty_key_config),
         (sample_backend, ''list_tables'', Some (JObj []))] initialState)
   \<and> (\<exists>u k. supabaseUrl (run_session int_builtins
        [(sample_backend, ''configure_supabase_instance'', Some empty_key_config),
         (sample_backend, ''list_tables'', Some (JObj []))] initialState) = Some u \<and> u \<noteq> []
           \<and> url_parses int_builtins u
           \<and> supabaseAnonKey (run_session int_builtins
        [(sample_backend, ''configure_supabase_instance'', Some empty_key_config),
         (sample_backend, ''list_tables'', Some (JObj []))] initialState) = Some k)"
proof -
  have b: "\<not> url_parses int_builtins ''''"
    by (simp add: int_builtins_def new_URL_ok_def trim_def is_c0_or_space_def has_scheme_def)
  have "configShape int_builtins (Some empty_key_config) =
    Some \<lparr>input_supabaseUrl = ''https://x.supabase.co'', input_supabaseAnonKey = '''',
          input_supabaseServiceKey = None\<rparr>"
    by (simp add: configShape_def empty_key_config_def z_object_def z_string_url_def z_string_def
      z_optional_def int_builtins_def new_URL_ok_def trim_def is_c0_or_space_def has_scheme_def is_alpha_def is_scheme_char_def)
  then have c: "isConfigured (run_session int_builtins
        [(sample_backend, ''configure_supabase_instance'', Some empty_key_config),
         (sample_backend, ''list_tables'', Some (JObj []))] initialState)"
    by (simp add: tools_call_configure_valid tools_call_list_tables server_tool_list_tables
        list_tables_guard)
  show ?thesis
    using configured_has_credentials [OF b c] b c by blast
qed

subsection \<open>Serialising and parsing a table listing\<close>

text \<open>
  \<^const>\<open>JSON_parse\<close> inverts \<^const>\<open>JSON_stringify\<close> on the values that validation
  returns: first on quoted strings, then on one entry, then on the array.
\<close>

lemma hex_value_hex_digit: "d < 16 \<Longrightarrow> hex_value (hex_digit d) = Some d"
  by (simp add: hex_value_def hex_digit_def)

lemma code_unit_low:
  assumes "n < 32"
  shows "code_unit (CHR ''0'') (CHR ''0'') (hex_digit (n div 16)) (hex_digit (n mod 16)) = Some n"
proof -
  have "n div 16 < 16" using assms by simp
  then have a: "hex_value (hex_digit (n div 16)) = Some (n div 16)"
    by (rule hex_value_hex_digit)
  have b: "hex_value (hex_digit (n mod 16)) = Some (n mod 16)"
    by (rule hex_value_hex_digit) simp
  have c: "hex_value (CHR ''0'') = Some 0"
    by (simp add: hex_value_def)
  show ?thesis
    by (simp add: code_unit_def a b c)
qed

lemma parse_chars_quote_char:
  "parse_chars (quote_char c @ cs) = prepend c (parse_chars cs)"
proof -
  consider (short) "c = CHR 0x08 \<or> c = CHR 0x09 \<or> c = CHR 0x0A \<or> c = CHR 0x0C \<or> c = CHR 0x0D
      \<or> c = CHR 0x22 \<or> c = CHR 0x5C"
    | (low) "c \<noteq> CHR 0x08" "c \<noteq> CHR 0x09" "c \<noteq> CHR 0x0A" "c \<noteq> CHR 0x0C" "c \<noteq> CHR 0x0D"
      "c \<noteq> CHR 0x22" "c \<noteq> CHR 0x5C" "(of_char c :: nat) < 32"
    | (plain) "c \<noteq> CHR 0x08" "c \<noteq> CHR 0x09" "c \<noteq> CHR 0x0A" "c \<noteq> CHR 0x0C" "c \<noteq> CHR 0x0D"
      "c \<noteq> CHR 0x22" "c \<noteq> CHR 0x5C" "\<not> (of_char c :: nat) < 32"
    by blast
  then show ?thesis
  proof cases
    case short
    then show ?thesis
      by (auto simp add: quote_char_def unescape_def)
  next
    case low
    have "parse_chars (quote_char c @ cs) =
        parse_chars (CHR 0x5C # CHR ''u'' # CHR ''0'' # CHR ''0''
          # hex_digit (of_char c div 16) # hex_digit (of_char c mod 16) # cs)"
      using low by (simp add: quote_char_def)
    also have "\<dots> = prepend (char_of (of_char c :: nat)) (parse_chars cs)"
      using low(8) by (simp add: code_unit_low)
    finally show ?thesis by simp
  next
    case plain
    then show ?thesis
      by (simp add: quote_char_def)
  qed
qed

lemma parse_chars_quoted:
  "parse_chars (concat (map quote_char s) @ CHR 0x22 # rest) = Some (s, rest)"
proof (induction s)
  case Nil
  show ?case by simp
next
  case (Cons c s)
  have "parse_chars (concat (map quote_char (c # s)) @ CHR 0x22 # rest) =
      parse_chars (quote_char c @ (concat (map quote_char s) @ CHR 0x22 # rest))"
    by simp
  also have "\<dots> = prepend c (parse_chars (concat (map quote_char s) @ CHR 0x22 # rest))"
    by (rule parse_chars_quote_char)
  also have "\<dots> = Some (c # s, rest)"
    by (simp add: Cons.IH prepend_def)
  finally show ?case .
qed

lemma parse_QuoteJSONString:
  "QuoteJSONString s @ rest = CHR 0x22 # concat (map quote_char s) @ CHR 0x22 # rest"
  by (simp add: QuoteJSONString_def)

lemma parse_elements_skip:
  "is_ws c \<Longrightarrow> parse_elements rt n acc (c # cs) = parse_elements rt n acc cs"
  by (cases n) (simp_all, cases "n - 1", simp_all)

lemma parse_object_two:
  assumes "k1 \<noteq> k2"
  shows "parse_value rt (Suc (Suc (Suc (Suc m))))
     (CHR ''{'' # CHR 0x0A # ''    '' @ QuoteJSONString k1 @ CHR '':'' # CHR '' ''
        # QuoteJSONString s1
        @ CHR '','' # CHR 0x0A # ''    '' @ QuoteJSONString k2 @ CHR '':'' # CHR '' ''
        # QuoteJSONString s2
        @ CHR 0x0A # ''  }'' @ rest)
     = Some (JObj [(k1, JStr s1), (k2, JStr s2)], rest)"
  using assms by (simp add: is_ws_def parse_QuoteJSONString parse_chars_quoted)

lemma parse_object_three:
  assumes "k1 \<noteq> k2" "k1 \<noteq> k3" "k2 \<noteq> k3"
    and "parse_value rt n (CHR '' '' # t3 @ CHR 0x0A # ''  }'' @ rest)
           = Some (v3, CHR 0x0A # ''  }'' @ rest)"
  shows "parse_value rt (Suc (Suc (Suc (Suc n))))
     (CHR ''{'' # CHR 0x0A # ''    '' @ QuoteJSONString k1 @ CHR '':'' # CHR '' ''
        # QuoteJSONString s1
        @ CHR '','' # CHR 0x0A # ''    '' @ QuoteJSONString k2 @ CHR '':'' # CHR '' ''
        # QuoteJSONString s2
        @ CHR '','' # CHR 0x0A # ''    '' @ QuoteJSONString k3 @ CHR '':'' # CHR '' ''
        # t3
        @ CHR 0x0A # ''  }'' @ rest)
     = Some (JObj [(k1, JStr s1), (k2, JStr s2), (k3, v3)], rest)"
  using assms(1-3)
  by (simp add: is_ws_def parse_QuoteJSONString parse_chars_quoted assms(4) [simplified])

lemma serialize_entry:
  "serialize rt ''  '' ''  '' (entry_json e) @ rest =
     CHR ''{'' # CHR 0x0A # ''    '' @ QuoteJSONString ''schema'' @ CHR '':'' # CHR '' ''
       # QuoteJSONString (entry_schema e)
       @ CHR '','' # CHR 0x0A # ''    '' @ QuoteJSONString ''name'' @ CHR '':'' # CHR '' ''
       # QuoteJSONString (entry_name e)
       @ (case entry_comment e of
            None \<Rightarrow> []
          | Some None \<Rightarrow>
              CHR '','' # CHR 0x0A # ''    '' @ QuoteJSONString ''comment'' @ CHR '':'' # CHR '' ''
                # ''null''
          | Some (Some c) \<Rightarrow>
              CHR '','' # CHR 0x0A # ''    '' @ QuoteJSONString ''comment'' @ CHR '':'' # CHR '' ''
                # QuoteJSONString c)
       @ CHR 0x0A # ''  }'' @ rest"
  by (simp add: entry_json_def split: option.split)

lemma parse_value_entry:
  "parse_value rt (Suc (Suc (Suc (Suc (Suc m)))))
     (serialize rt ''  '' ''  '' (entry_json e) @ rest) = Some (entry_json e, rest)"
proof (cases "entry_comment e")
  case None
  have "parse_value rt (Suc (Suc (Suc (Suc (Suc m)))))
     (CHR ''{'' # CHR 0x0A # ''    '' @ QuoteJSONString ''schema'' @ CHR '':'' # CHR '' ''
        # QuoteJSONString (entry_schema e)
        @ CHR '','' # CHR 0x0A # ''    '' @ QuoteJSONString ''name'' @ CHR '':'' # CHR '' ''
        # QuoteJSONString (entry_name e)
        @ CHR 0x0A # ''  }'' @ rest)
     = Some (JObj [(''schema'', JStr (entry_schema e)), (''name'', JStr (entry_name e))], rest)"
    by (rule parse_object_two) simp
  then show ?thesis
    by (simp only: serialize_entry) (simp add: None entry_json_def)
next
  case (Some c)
  show ?thesis
  proof (cases c)
    case None
    have v: "parse_value rt (Suc m) (CHR '' '' # ''null'' @ CHR 0x0A # ''  }'' @ rest)
        = Some (JNull, CHR 0x0A # ''  }'' @ rest)"
      by (simp add: is_ws_def literal_def)
    have "parse_value rt (Suc (Suc (Suc (Suc (Suc m)))))
     (CHR ''{'' # CHR 0x0A # ''    '' @ QuoteJSONString ''schema'' @ CHR '':'' # CHR '' ''
        # QuoteJSONString (entry_schema e)
        @ CHR '','' # CHR 0x0A # ''    '' @ QuoteJSONString ''name'' @ CHR '':'' # CHR '' ''
        # QuoteJSONString (entry_name e)
        @ CHR '','' # CHR 0x0A # ''    '' @ QuoteJSONString ''comment'' @ CHR '':'' # CHR '' ''
        # ''null''
        @ CHR 0x0A # ''  }'' @ rest)
     = Some (JObj [(''schema'', JStr (entry_schema e)), (''name'', JStr (entry_name e)),
                   (''comment'', JNull)], rest)"
      by (rule parse_object_three [OF _ _ _ v]) simp_all
    then show ?thesis
      by (simp only: serialize_entry) (simp add: None Some entry_json_def)
  next
    case (Some t)
    have v: "parse_value rt (Suc m) (CHR '' '' # QuoteJSONString t @ CHR 0x0A # ''  }'' @ rest)
        = Some (JStr t, CHR 0x0A # ''  }'' @ rest)"
      by (simp add: is_ws_def parse_QuoteJSONString parse_chars_quoted)
    have "parse_value rt (Suc (Suc (Suc (Suc (Suc m)))))
     (CHR ''{'' # CHR 0x0A # ''    '' @ QuoteJSONString ''schema'' @ CHR '':'' # CHR '' ''
        # QuoteJSONString (entry_schema e)
        @ CHR '','' # CHR 0x0A # ''    '' @ QuoteJSONString ''name'' @ CHR '':'' # CHR '' ''
        # QuoteJSONString (entry_name e)
        @ CHR '','' # CHR 0x0A # ''    '' @ QuoteJSONString ''comment'' @ CHR '':'' # CHR '' ''
        # QuoteJSONString t
        @ CHR 0x0A # ''  }'' @ rest)
     = Some (JObj [(''schema'', JStr (entry_schema e)), (''name'', JStr (entry_name e)),
                   (''comment'', JStr t)], rest)"
      by (rule parse_object_three [OF _ _ _ v]) simp_all
    then show ?thesis
      by (simp only: serialize_entry) (simp add: Some \<open>entry_comment e = Some c\<close> entry_json_def)
  qed
qed

lemma serialize_entry_head:
  "\<exists>t. serialize rt ''  '' ''  '' (entry_json e) = CHR ''{'' # t"
  using serialize_entry [of rt e "[]"] by simp

lemma length_join:
  "list_all (\<lambda>x. x \<noteq> []) xs \<Longrightarrow> length xs \<le> length (join sep xs)"
proof (induction sep xs rule: join.induct)
  case (1 sep)
  show ?case by simp
next
  case (2 sep x)
  then show ?case by (cases x) simp_all
next
  case (3 sep x y ys)
  then show ?case by (cases x) simp_all
qed

lemma serialize_elements_entries:
  "serialize_elements rt ''  '' ''  '' (map entry_json es) =
     map (\<lambda>e. serialize rt ''  '' ''  '' (entry_json e)) es"
  by (induction es) simp_all

lemma entries_nonempty:
  "list_all (\<lambda>x. x \<noteq> []) (serialize_elements rt ''  '' ''  '' (map entry_json es))"
proof -
  have "serialize rt ''  '' ''  '' (entry_json e) \<noteq> []" for e
    using serialize_entry_head [of rt e] by auto
  then show ?thesis
    by (simp add: serialize_elements_entries list_all_iff)
qed

lemma parse_elements_entries:
  "es \<noteq> [] \<Longrightarrow> length es + 5 \<le> n \<Longrightarrow>
   parse_elements rt n acc
     (join (CHR '','' # CHR 0x0A # ''  '') (serialize_elements rt ''  '' ''  '' (map entry_json es))
        @ CHR 0x0A # CHR '']'' # rest)
   = Some (acc @ map entry_json es, rest)"
proof (induction es arbitrary: n acc)
  case Nil
  then show ?case by simp
next
  case (Cons e es)
  define m where "m = n - 6"
  from Cons.prems(2) have n: "n = Suc (Suc (Suc (Suc (Suc (Suc m)))))"
    and m: "length es \<le> m"
    by (simp_all add: m_def)
  show ?case
  proof (cases es)
    case Nil
    have "parse_value rt (Suc (Suc (Suc (Suc (Suc m)))))
        (serialize rt ''  '' ''  '' (entry_json e) @ CHR 0x0A # CHR '']'' # rest)
        = Some (entry_json e, CHR 0x0A # CHR '']'' # rest)"
      by (rule parse_value_entry)
    then show ?thesis
      by (simp add: Nil n is_ws_def)
  next
    case (Cons e' es')
    let ?tail = "join (CHR '','' # CHR 0x0A # ''  '')
          (serialize_elements rt ''  '' ''  '' (map entry_json es)) @ CHR 0x0A # CHR '']'' # rest"
    have v: "parse_value rt (Suc (Suc (Suc (Suc (Suc m)))))
        (serialize rt ''  '' ''  '' (entry_json e) @ CHR '','' # CHR 0x0A # ''  '' @ ?tail)
        = Some (entry_json e, CHR '','' # CHR 0x0A # ''  '' @ ?tail)"
      by (rule parse_value_entry)
    have "es \<noteq> []" using Cons by simp
    moreover have "length es + 5 \<le> Suc (Suc (Suc (Suc (Suc m))))" using m by simp
    ultimately have ih: "parse_elements rt (Suc (Suc (Suc (Suc (Suc m))))) (acc @ [entry_json e]) ?tail
        = Some ((acc @ [entry_json e]) @ map entry_json es, rest)"
      by (rule Cons.IH)
    have "parse_elements rt n acc
        (serialize rt ''  '' ''  '' (entry_json e) @ CHR '','' # CHR 0x0A # ''  '' @ ?tail)
        = parse_elements rt (Suc (Suc (Suc (Suc (Suc m))))) (acc @ [entry_json e])
            (CHR 0x0A # ''  '' @ ?tail)"
      unfolding n parse_elements.simps v by (simp add: is_ws_def)
    also have "\<dots> = parse_elements rt (Suc (Suc (Suc (Suc (Suc m))))) (acc @ [entry_json e]) ?tail"
      by (simp add: parse_elements_skip is_ws_def)
    also note ih
    finally show ?thesis
      by (simp add: Cons)
  qed
qed

lemma parse_value_array:
  assumes "parse_elements rt n [] (c # b) = Some (xs, r)"
    and "c \<noteq> CHR '']''" and "\<not> is_ws c"
  shows "parse_value rt (Suc n) (CHR ''['' # CHR 0x0A # CHR '' '' # CHR '' '' # c # b)
           = Some (JArr xs, r)"
proof -
  have "parse_elements rt n [] (CHR 0x0A # CHR '' '' # CHR '' '' # c # b) = Some (xs, r)"
    using assms(1) by (simp add: parse_elements_skip is_ws_def)
  then show ?thesis
    using assms(2,3) by (simp add: is_ws_def)
qed

lemma JSON_parse_stringify_entries:
  "JSON_parse rt (JSON_stringify rt (JArr (map entry_json es)) 2) = Some (JArr (map entry_json es))"
proof (cases es)
  case Nil
  then show ?thesis
    by (simp add: JSON_parse_def JSON_stringify_def is_ws_def)
next
  case (Cons e es')
  let ?xs = "serialize_elements rt ''  '' ''  '' (map entry_json es)"
  let ?body = "join (CHR '','' # CHR 0x0A # ''  '') ?xs @ CHR 0x0A # CHR '']'' # []"
  define N where "N = length (CHR ''['' # CHR 0x0A # CHR '' '' # CHR '' '' # ?body)"
  have two: "replicate 2 (CHR '' '') = ''  ''"
    by (simp add: numeral_2_eq_2)
  have layout: "JSON_stringify rt (JArr (map entry_json es)) 2
      = CHR ''['' # CHR 0x0A # CHR '' '' # CHR '' '' # ?body"
    by (simp add: JSON_stringify_def two Cons)
  obtain t where t: "serialize rt ''  '' ''  '' (entry_json e) = CHR ''{'' # t"
    using serialize_entry_head by blast
  have "?body = CHR ''{'' # (case es' of [] \<Rightarrow> t | _ \<Rightarrow> t @ CHR '','' # CHR 0x0A # ''  '' @
      join (CHR '','' # CHR 0x0A # ''  '') (serialize_elements rt ''  '' ''  '' (map entry_json es')))
      @ CHR 0x0A # CHR '']'' # []"
    by (cases es') (simp_all add: Cons t)
  then obtain b where b: "?body = CHR ''{'' # b" by blast
  have "length es \<le> length (join (CHR '','' # CHR 0x0A # ''  '') ?xs)"
    using length_join [OF entries_nonempty, of rt es] by (simp add: serialize_elements_entries)
  then have fuel: "length es + 5 \<le> N"
    by (simp add: N_def)
  have "es \<noteq> []" using Cons by simp
  from parse_elements_entries [OF this fuel, of rt "[]" "[]"]
  have "parse_elements rt N [] ?body = Some (map entry_json es, [])"
    by simp
  then have "parse_elements rt N [] (CHR ''{'' # b) = Some (map entry_json es, [])"
    by (simp only: b)
  then have "parse_value rt (Suc N) (CHR ''['' # CHR 0x0A # CHR '' '' # CHR '' '' # CHR ''{'' # b)
      = Some (JArr (map entry_json es), [])"
    by (rule parse_value_array) (simp_all add: is_ws_def)
  then have "parse_value rt (Suc N) (CHR ''['' # CHR 0x0A # CHR '' '' # CHR '' '' # ?body)
      = Some (JArr (map entry_json es), [])"
    by (simp only: b)
  then show ?thesis
    unfolding JSON_parse_def layout N_def [symmetric] by simp
qed

lemma entry_of_record:
  assumes "is_table_record d"
  shows "\<exists>e. ListTablesEntrySchema (Some d) = Some e \<and> same_properties (entry_json e) d"
proof -
  from assms obtain ps where d: "d = JObj ps"
    by (cases d) (simp_all add: is_table_record_def)
  from assms d have dist: "distinct (map fst ps)"
    and keys: "set (map fst ps) = {''schema'', ''name'', ''comment''}"
    by (simp_all add: is_table_record_def)
  from assms d obtain s where s: "map_of ps ''schema'' = Some (JStr s)"
    by (auto simp add: is_table_record_def split: option.splits json.splits)
  from assms d obtain n where n: "map_of ps ''name'' = Some (JStr n)"
    by (auto simp add: is_table_record_def split: option.splits json.splits)
  from assms d obtain c where c: "map_of ps ''comment'' = Some c"
    and c': "c = JNull \<or> (\<exists>t. c = JStr t)"
    by (auto simp add: is_table_record_def split: option.splits json.splits)
  define e where "e = \<lparr>entry_schema = s, entry_name = n,
      entry_comment = Some (case c of JStr t \<Rightarrow> Some t | _ \<Rightarrow> None)\<rparr>"
  have parse: "ListTablesEntrySchema (Some d) = Some e"
    using c' by (auto simp add: ListTablesEntrySchema_def z_object_def z_string_def
        z_optional_def z_nullable_def d s n c e_def)
  have json: "entry_json e = JObj [(''schema'', JStr s), (''name'', JStr n), (''comment'', c)]"
    using c' by (auto simp add: entry_json_def e_def)
  have "set [(''schema'', JStr s), (''name'', JStr n), (''comment'', c)] = set ps"
  proof (rule set_eqI)
    fix p :: "string \<times> 'a json"
    obtain k v where p: "p = (k, v)" by (cases p)
    show "p \<in> set [(''schema'', JStr s), (''name'', JStr n), (''comment'', c)] \<longleftrightarrow> p \<in> set ps"
    proof
      assume "p \<in> set [(''schema'', JStr s), (''name'', JStr n), (''comment'', c)]"
      then have "map_of ps k = Some v"
        using s n c by (auto simp add: p)
      then show "p \<in> set ps"
        unfolding p by (rule map_of_SomeD)
    next
      assume "p \<in> set ps"
      then have m: "map_of ps k = Some v"
        unfolding p using dist by simp
      from \<open>p \<in> set ps\<close> have "k \<in> set (map fst ps)"
        unfolding p by force
      then have "k = ''schema'' \<or> k = ''name'' \<or> k = ''comment''"
        unfolding keys by blast
      then show "p \<in> set [(''schema'', JStr s), (''name'', JStr n), (''comment'', c)]"
        using m s n c by (auto simp add: p)
    qed
  qed
  then have "same_properties (entry_json e) d"
    using dist by (simp add: same_properties_def json d)
  with parse show ?thesis by blast
qed

lemma entries_of_records:
  "list_all is_table_record ds \<Longrightarrow>
   \<exists>es. parse_each ListTablesEntrySchema ds = Some es
        \<and> list_all2 same_properties (map entry_json es) ds"
proof (induction ds)
  case Nil
  show ?case by simp
next
  case (Cons d ds)
  from Cons.prems have "is_table_record d" and "list_all is_table_record ds"
    by simp_all
  from entry_of_record [OF this(1)] obtain e
    where e: "ListTablesEntrySchema (Some d) = Some e" "same_properties (entry_json e) d"
    by blast
  from Cons.IH [OF \<open>list_all is_table_record ds\<close>] obtain es
    where es: "parse_each ListTablesEntrySchema ds = Some es"
      "list_all2 same_properties (map entry_json es) ds"
    by blast
  have "parse_each ListTablesEntrySchema (d # ds) = Some (e # es)"
    by (simp add: e es)
  moreover have "list_all2 same_properties (map entry_json (e # es)) (d # ds)"
    by (simp add: e es)
  ultimately show ?case by blast
qed

text \<open>
  C4. In a configured session, when the rpc call (on the client that the factory
  returned) resolves without an error to a sequence
  of records, each with exactly the properties \<^verbatim>\<open>schema\<close> (a string), \<^verbatim>\<open>name\<close> (a
  string) and \<^verbatim>\<open>comment\<close> (a string or \<^verbatim>\<open>null\<close>), \<^verbatim>\<open>list_tables\<close> returns a result
  without the error marker and with one text payload, and \<^verbatim>\<open>JSON.parse\<close> of that payload
  is a sequence of the same length whose records have, position by position, the same
  properties with the same values as the input.
\<close>

theorem list_tables_round_trip:
  assumes "isConfigured st"
    and "supabaseUrl st = Some u" and "u \<noteq> []"
    and "supabaseAnonKey st = Some k" and "k \<noteq> []"
    and "createClient rt u k = Inr supabase"
    and "backend supabase ''execute_sql'' listTablesSql = Resolved (JArr ds) None"
    and "list_all is_table_record ds"
  shows "\<exists>t ds'. fst (list_tables_handler rt backend input st) = Inr (ToolResult [Text t] False)
           \<and> JSON_parse rt t = Some (JArr ds')
           \<and> list_all2 same_properties ds' ds"
proof -
  from entries_of_records [OF assms(8)] obtain es
    where es: "parse_each ListTablesEntrySchema ds = Some es"
      "list_all2 same_properties (map entry_json es) ds"
    by blast
  have "ListTablesOutputSchema (Some (JArr ds)) = Some es"
    by (simp add: ListTablesOutputSchema_def z_array_def es)
  then have "fst (list_tables_handler rt backend input st) =
      Inr (ToolResult [Text (JSON_stringify rt (JArr (map entry_json es)) 2)] False)"
    by (simp add: list_tables_configured [OF assms(1-6)] assms(7) ok_text_def)
  moreover have "JSON_parse rt (JSON_stringify rt (JArr (map entry_json es)) 2)
      = Some (JArr (map entry_json es))"
    by (rule JSON_parse_stringify_entries)
  ultimately show ?thesis
    using es(2) by blast
qed

theorem list_tables_round_trip_witness:
  "list_all is_table_record
     [JObj [(''name'', JStr ''users''), (''schema'', JStr ''public''), (''comment'', JNull)],
      JObj [(''schema'', JStr ''app''), (''name'', JStr ''orders''),
            (''comment'', JStr [CHR ''a'', CHR 0x22, CHR 0x0A, CHR ''b''])] :: int json]
   \<and> (\<exists>t ds'. fst (list_tables_handler int_builtins shuffled_backend () configured_state)
             = Inr (ToolResult [Text t] False)
           \<and> JSON_parse int_builtins t = Some (JArr ds')
           \<and> list_all2 same_properties ds'
               [JObj [(''name'', JStr ''users''), (''schema'', JStr ''public''),
                      (''comment'', JNull)],
                JObj [(''schema'', JStr ''app''), (''name'', JStr ''orders''),
                      (''comment'', JStr [CHR ''a'', CHR 0x22, CHR 0x0A, CHR ''b''])]])"
proof -
  have a: "isConfigured configured_state"
    and b: "supabaseUrl configured_state = Some ''https://x.supabase.co''"
    and c: "supabaseAnonKey configured_state = Some ''anon''"
    by (simp_all add: configured_state_def)
  have d: "shuffled_backend \<lparr>client_url = ''https://x.supabase.co'', client_key = ''anon''\<rparr>
      ''execute_sql'' listTablesSql
      = Resolved
       (JArr [JObj [(''name'', JStr ''users''), (''schema'', JStr ''public''),
                    (''comment'', JNull)],
              JObj [(''schema'', JStr ''app''), (''name'', JStr ''orders''),
                    (''comment'', JStr [CHR ''a'', CHR 0x22, CHR 0x0A, CHR ''b''])]])
       None"
    by (simp add: shuffled_backend_def)
  have e: "list_all is_table_record
     [JObj [(''name'', JStr ''users''), (''schema'', JStr ''public''), (''comment'', JNull)],
      JObj [(''schema'', JStr ''app''), (''name'', JStr ''orders''),
            (''comment'', JStr [CHR ''a'', CHR 0x22, CHR 0x0A, CHR ''b''])] :: int json]"
    by (auto simp add: is_table_record_def)
  show ?thesis
    using list_tables_round_trip [where backend = shuffled_backend and rt = int_builtins
        and input = "()", OF a b _ c _ createClient_sample d e] e
    by simp
qed

text \<open>
  When the records of the backend have their keys in the order of the shape, the parsed
  payload is the data of the backend itself; this includes records without a comment.
\<close>

lemma ListTablesEntrySchema_entry: "ListTablesEntrySchema (Some (entry_json e)) = Some e"
  by (cases e)
    (simp add: ListTablesEntrySchema_def entry_json_def z_object_def z_string_def
      z_optional_def z_nullable_def split: option.split)

lemma ListTablesOutputSchema_entries:
  "ListTablesOutputSchema (Some (JArr (map entry_json es))) = Some es"
proof -
  have "parse_each ListTablesEntrySchema (map entry_json es) = Some es"
    by (induction es) (simp_all add: ListTablesEntrySchema_entry)
  then show ?thesis
    by (simp add: ListTablesOutputSchema_def z_array_def)
qed

lemma round_trip_in_shape_order:
  assumes "isConfigured st"
    and "supabaseUrl st = Some u" and "u \<noteq> []"
    and "supabaseAnonKey st = Some k" and "k \<noteq> []"
    and "createClient rt u k = Inr supabase"
    and "backend supabase ''execute_sql'' listTablesSql
           = Resolved (JArr (map entry_json es)) None"
  shows "\<exists>t. fst (list_tables_handler rt backend input st) = Inr (ToolResult [Text t] False)
           \<and> JSON_parse rt t = Some (JArr (map entry_json es))"
  by (simp add: list_tables_configured [OF assms(1-6)] assms(7) ok_text_def
      ListTablesOutputSchema_entries JSON_parse_stringify_entries)

text \<open>The payload of a concrete run, character by character, and its parse.\<close>

lemma example_text:
  \<open>fst (list_tables_handler int_builtins shuffled_backend () configured_state) =
     Inr (ToolResult [Text (''['' @ CHR 0x0A # ''  {'' @ CHR 0x0A
       # ''    "schema": "public",'' @ CHR 0x0A
       # ''    "name": "users",'' @ CHR 0x0A
       # ''    "comment": null'' @ CHR 0x0A
       # ''  },'' @ CHR 0x0A
       # ''  {'' @ CHR 0x0A
       # ''    "schema": "app",'' @ CHR 0x0A
       # ''    "name": "orders",'' @ CHR 0x0A
       # ''    "comment": "a'' @ [CHR 0x5C, CHR 0x22, CHR 0x5C] @ ''nb"'' @ CHR 0x0A
       # ''  }'' @ CHR 0x0A # '']'')] False)\<close>
  by (simp add: list_tables_configured [OF _ _ _ _ _ createClient_sample]
    configured_state_def shuffled_backend_def
    ListTablesOutputSchema_def ListTablesEntrySchema_def z_array_def z_object_def z_string_def
    z_optional_def z_nullable_def ok_text_def JSON_stringify_def entry_json_def
    QuoteJSONString_def quote_char_def numeral_2_eq_2)

lemma example_parse:
  \<open>JSON_parse int_builtins (''['' @ CHR 0x0A # ''  {'' @ CHR 0x0A
       # ''    "schema": "public",'' @ CHR 0x0A
       # ''    "name": "users",'' @ CHR 0x0A
       # ''    "comment": null'' @ CHR 0x0A
       # ''  },'' @ CHR 0x0A
       # ''  {'' @ CHR 0x0A
       # ''    "schema": "app",'' @ CHR 0x0A
       # ''    "name": "orders",'' @ CHR 0x0A
       # ''    "comment": "a'' @ [CHR 0x5C, CHR 0x22, CHR 0x5C] @ ''nb"'' @ CHR 0x0A
       # ''  }'' @ CHR 0x0A # '']'') =
   Some (JArr [JObj [(''schema'', JStr ''public''), (''name'', JStr ''users''), (''comment'', JNull)],
      JObj [(''schema'', JStr ''app''), (''name'', JStr ''orders''),
            (''comment'', JStr [CHR ''a'', CHR 0x22, CHR 0x0A, CHR ''b''])]])\<close>
  by code_simp

end
